theory Spec2Isabelle
  imports Complex_Main
begin

section \<open>Numbers and input coercion\<close>

text \<open>
  The planner's engine computes with JavaScript numbers. They are modelled as exact
  reals: the rounding error of IEEE doubles and their finite range are not
  modelled, so every statement below is about the arithmetic the code writes down.
  \<open>Math.pow (1 + r) t\<close> with a year index \<open>t\<close> is the power \<open>(1 + r) ^ t\<close>,
  \<open>Math.min\<close> and \<open>Math.max\<close> are \<open>min\<close> and \<open>max\<close>.
\<close>

definition EPS :: real where
  "EPS = 1 / 1000000000"

text \<open>
  A raw request field is absent (\<open>null\<close> or \<open>undefined\<close>) or has a text, the text
  of a numeric field being its decimal rendering \<open>String(v)\<close>.
\<close>

datatype raw = Missing | Text string

definition is_digit :: "char \<Rightarrow> bool" where
  "is_digit c = (c \<in> set ''0123456789'')"

definition digit_val :: "char \<Rightarrow> nat" where
  "digit_val c = of_char c - 48"

definition digits_val :: "string \<Rightarrow> nat" where
  "digits_val s = foldl (\<lambda>a c. 10 * a + digit_val c) 0 s"

definition is_space :: "char \<Rightarrow> bool" where
  "is_space c = (c \<in> {CHR '' '', CHR 0x09, CHR 0x0A, CHR 0x0B, CHR 0x0C, CHR 0x0D})"

definition trim :: "string \<Rightarrow> string" where
  "trim s = rev (dropWhile is_space (rev (dropWhile is_space s)))"

text \<open>
  \<open>Number(cleaned)\<close> on a text of digits, dots and minus signs: an optional
  leading minus, then digits with an optional fraction, or a dot followed by
  digits; the empty text is 0; anything else is \<open>NaN\<close> (\<open>None\<close>).
\<close>

definition unsigned_decimal :: "string \<Rightarrow> real option" where
  "unsigned_decimal s =
     (let ip = takeWhile is_digit s; rest = dropWhile is_digit s in
      case rest of
        [] \<Rightarrow> if ip = [] then None else Some (real (digits_val ip))
      | c # fp \<Rightarrow>
          if c = CHR ''.'' \<and> list_all is_digit fp \<and> (ip \<noteq> [] \<or> fp \<noteq> [])
          then Some (real (digits_val ip) + real (digits_val fp) / 10 ^ length fp)
          else None)"

definition js_Number :: "string \<Rightarrow> real option" where
  "js_Number s =
     (case s of
        [] \<Rightarrow> Some 0
      | c # cs \<Rightarrow>
          if c = CHR ''-'' then map_option uminus (unsigned_decimal cs)
          else unsigned_decimal s)"

definition toNum :: "raw \<Rightarrow> real" where
  "toNum v =
     (case v of
        Missing \<Rightarrow> 0
      | Text txt \<Rightarrow>
          (let s = trim txt in
           if s = [] then 0
           else
             (let cleaned = filter (\<lambda>c. is_digit c \<or> c = CHR ''.'' \<or> c = CHR ''-'') s in
              case js_Number cleaned of None \<Rightarrow> 0 | Some n \<Rightarrow> n)))"

definition normalizeRate :: "raw \<Rightarrow> real" where
  "normalizeRate x = (let n = toNum x in if n > 1 then n / 100 else n)"

section \<open>The tax-deferred withdrawal solver\<close>


















text \<open>
  The same two functions with no rounding: what the solver would compute in exact
  arithmetic. The projection below is read in exact arithmetic throughout, and its
  runs take their withdrawal from this reading.
\<close>

definition simulate_exact :: "nat \<Rightarrow> nat \<Rightarrow> real \<Rightarrow> real \<Rightarrow> real \<Rightarrow> real \<Rightarrow> real" where
  "simulate_exact yearsToRetire yearsToPlan rrspInitialBalance rrspContribute rrspRoi W =
     fold (\<lambda>t endBalPrev.
            (let init = (if t = 0 then rrspInitialBalance else endBalPrev * (1 + rrspRoi));
                 contrib = (if t < yearsToRetire then rrspContribute else 0);
                 withdraw = (if t \<ge> yearsToRetire then W else 0);
                 endBal = init + contrib - withdraw
             in endBal))
          [0..<yearsToPlan] rrspInitialBalance"

definition solveRRSPWithdrawal_exact :: "nat \<Rightarrow> nat \<Rightarrow> real \<Rightarrow> real \<Rightarrow> real \<Rightarrow> real" where
  "solveRRSPWithdrawal_exact yearsToRetire yearsToPlan rrspInitialBalance rrspContribute rrspRoi =
     (let a = simulate_exact yearsToRetire yearsToPlan rrspInitialBalance rrspContribute rrspRoi 0;
          a1 = simulate_exact yearsToRetire yearsToPlan rrspInitialBalance rrspContribute rrspRoi 1;
          b = a - a1
      in if b > 0 then max 0 (a / b) else 0)"

section \<open>The year-state simulator\<close>

text \<open>
  The two branches of the loop body return the variables they may assign:
  \<open>(tfsaC, tfsaW, nonrC, nonrW, depletedEarly)\<close>.
\<close>

definition preRet ::
  "real \<Rightarrow> real \<Rightarrow> real \<Rightarrow> real \<Rightarrow> real \<Rightarrow> real \<Rightarrow> bool \<Rightarrow> real \<times> real \<times> real \<times> real \<times> bool" where
  "preRet income expense rrspC tfsaC tfsaInit nonrInit depleted =
     (let need = expense + rrspC + tfsaC in
      if income \<ge> need then (tfsaC, 0, income - need, 0, depleted)
      else
        (let short0 = need - income;
             nonrW = min nonrInit short0;
             short1 = short0 - nonrW;
             tfsaW = (if short1 > EPS then min (tfsaInit + tfsaC) short1 else 0);
             short2 = (if short1 > EPS then short1 - tfsaW else short1)
         in (tfsaC, tfsaW, 0, nonrW, (if short2 > EPS then True else depleted))))"

definition postRet ::
  "real \<Rightarrow> real \<Rightarrow> real \<Rightarrow> real \<Rightarrow> real \<Rightarrow> bool \<Rightarrow> real \<times> real \<times> real \<times> real \<times> bool" where
  "postRet tfsaTarget expense rrspW tfsaInit nonrInit depleted =
     (let tfsaC = tfsaTarget;
          nonrNeed = expense + tfsaC - rrspW
      in
      if nonrNeed \<le> 0 then (tfsaC, 0, - nonrNeed, 0, depleted)
      else if nonrInit + EPS \<ge> nonrNeed then (tfsaC, 0, 0, nonrNeed, depleted)
      else
        (let nonrW = nonrInit;
             tfsaC1 = min tfsaTarget (max 0 (nonrW + rrspW - expense));
             covered = rrspW + nonrW
         in
         if covered + EPS < expense then
           (let gap = expense - covered;
                tfsaW = min tfsaInit gap;
                remaining = gap - tfsaW
            in (0, tfsaW, 0, nonrW, (if remaining > EPS then True else depleted)))
         else (tfsaC1, 0, 0, nonrW, depleted)))"

text \<open>The request's fields after coercion (\<open>toInt\<close>, \<open>toNum\<close>, \<open>normalizeRate\<close>).\<close>

record inputs =
  currentAge :: int
  yearsToRetire :: nat
  yearsToPlanInput :: int
  incomeAnnual :: real
  expensesAnnual :: real
  inflationRate :: real
  rrspInitialBalance :: real
  rrspContribute :: real
  rrspRoi :: real
  tfsaInitialBalance :: real
  tfsaContribute :: real
  tfsaRoi :: real
  nonRegisteredInitialBalance :: real
  nonRegisteredRoi :: real

record row =
  age :: int
  income :: real
  expense :: real
  rrspInit :: real
  rrspC :: real
  rrspW :: real
  rrspEnd :: real
  tfsaInit :: real
  tfsaC :: real
  tfsaW :: real
  tfsaEnd :: real
  nonrInit :: real
  nonrC :: real
  nonrW :: real
  nonrEnd :: real

text \<open>
  The variables of \<open>runProjection\<close>: its result fields \<open>rows\<close> and
  \<open>depletedEarly\<close>, extended by the loop's other variables, or by \<open>endingTotal\<close>
  in the returned object.
\<close>

record projection_core =
  rows :: "row list"
  depletedEarly :: bool

record loop_state = projection_core +
  rrspEndPrev :: real
  tfsaEndPrev :: real
  nonrEndPrev :: real
  nonrCleared :: bool

record projection = projection_core +
  endingTotal :: real

text \<open>One pass through the loop body for year \<open>t\<close>: the row pushed and the flag.\<close>

definition year_row :: "inputs \<Rightarrow> real \<Rightarrow> real \<Rightarrow> nat \<Rightarrow> loop_state \<Rightarrow> row \<times> bool" where
  "year_row d expensesBase rrspWithdrawFixedUsed t st =
     (let age = currentAge d + int t;
          income = (if t < yearsToRetire d then incomeAnnual d else 0);
          expense = expensesBase * (1 + inflationRate d) ^ t;
          rrspInit = (if t = 0 then rrspInitialBalance d else rrspEndPrev st * (1 + rrspRoi d));
          rrspC = (if t < yearsToRetire d then rrspContribute d else 0);
          rrspW = (if t \<ge> yearsToRetire d then rrspWithdrawFixedUsed else 0);
          rrspEnd = rrspInit + rrspC - rrspW;
          tfsaInit = (if t = 0 then tfsaInitialBalance d else tfsaEndPrev st * (1 + tfsaRoi d));
          tfsaTarget = (if nonrCleared st then 0 else tfsaContribute d);
          nonrInit = (if t = 0 then nonRegisteredInitialBalance d
                      else nonrEndPrev st * (1 + nonRegisteredRoi d));
          (tfsaC, tfsaW, nonrC, nonrW, depleted) =
            (if t < yearsToRetire d
             then preRet income expense rrspC tfsaTarget tfsaInit nonrInit (depletedEarly st)
             else postRet tfsaTarget expense rrspW tfsaInit nonrInit (depletedEarly st));
          nonrEnd0 = nonrInit + nonrC - nonrW;
          nonrEnd = (if nonrEnd0 < EPS then 0 else nonrEnd0);
          tfsaEnd0 = tfsaInit + tfsaC - tfsaW;
          tfsaEnd = (if tfsaEnd0 < EPS then 0 else tfsaEnd0)
      in (\<lparr> age = age, income = income, expense = expense,
             rrspInit = rrspInit, rrspC = rrspC, rrspW = rrspW, rrspEnd = rrspEnd,
             tfsaInit = tfsaInit, tfsaC = tfsaC, tfsaW = tfsaW, tfsaEnd = tfsaEnd,
             nonrInit = nonrInit, nonrC = nonrC, nonrW = nonrW, nonrEnd = nonrEnd \<rparr>,
          depleted))"

definition year_step :: "inputs \<Rightarrow> real \<Rightarrow> real \<Rightarrow> nat \<Rightarrow> loop_state \<Rightarrow> loop_state" where
  "year_step d expensesBase rrspWithdrawFixedUsed t st =
     (let (r, depleted) = year_row d expensesBase rrspWithdrawFixedUsed t st in
      \<lparr> rows = rows st @ [r],
        depletedEarly = depleted,
        rrspEndPrev = rrspEnd r,
        tfsaEndPrev = tfsaEnd r,
        nonrEndPrev = nonrEnd r,
        nonrCleared = (if nonrEnd r = 0 then True else nonrCleared st) \<rparr>)"

function proj_loop :: "inputs \<Rightarrow> real \<Rightarrow> nat \<Rightarrow> real \<Rightarrow> nat \<Rightarrow> loop_state \<Rightarrow> loop_state" where
  "proj_loop d expensesBase yearsToPlanLocal rrspWithdrawFixedUsed t st =
     (if t < yearsToPlanLocal then
        (let st' = year_step d expensesBase rrspWithdrawFixedUsed t st in
         if depletedEarly st' \<and> int t < int yearsToPlanLocal - 1 then st'
         else proj_loop d expensesBase yearsToPlanLocal rrspWithdrawFixedUsed (t + 1) st')
      else st)"
  by pat_completeness auto
termination
  by (relation "measure (\<lambda>(d, e, n, w, t, st). n - t)") auto

declare proj_loop.simps [simp del]

definition init_state :: "inputs \<Rightarrow> loop_state" where
  "init_state d =
     \<lparr> rows = [], depletedEarly = False,
       rrspEndPrev = rrspInitialBalance d,
       tfsaEndPrev = tfsaInitialBalance d,
       nonrEndPrev = nonRegisteredInitialBalance d,
       nonrCleared = False \<rparr>"

definition runProjection :: "inputs \<Rightarrow> real \<Rightarrow> nat \<Rightarrow> real \<Rightarrow> projection" where
  "runProjection d expensesBase yearsToPlanLocal rrspWithdrawFixedUsed =
     (let st = proj_loop d expensesBase yearsToPlanLocal rrspWithdrawFixedUsed 0 (init_state d);
          endingTotal =
            (case rows st of
               [] \<Rightarrow> 0
             | _ \<Rightarrow> rrspEnd (last (rows st)) + tfsaEnd (last (rows st)) + nonrEnd (last (rows st)))
      in \<lparr> rows = rows st, depletedEarly = depletedEarly st, endingTotal = endingTotal \<rparr>)"

section \<open>The solvers' helpers in the request handler\<close>

text \<open>
  The handler's runs are read in exact arithmetic, so \<open>solveRrspWForHorizon\<close> is
  the exact reading of the solver at the request's numbers.
\<close>

definition solveRrspWForHorizon :: "inputs \<Rightarrow> nat \<Rightarrow> real" where
  "solveRrspWForHorizon d N =
     solveRRSPWithdrawal_exact (yearsToRetire d) N (rrspInitialBalance d) (rrspContribute d) (rrspRoi d)"

text \<open>\<open>simulateGivenN\<close> returns \<open>(yearsSurvived, rrspW)\<close>.\<close>

definition simulateGivenN :: "inputs \<Rightarrow> nat \<Rightarrow> real \<Rightarrow> nat \<times> real" where
  "simulateGivenN d N expensesBase =
     (let rrspW = solveRrspWForHorizon d N;
          proj = runProjection d expensesBase N rrspW
      in (length (rows proj), rrspW))"

section \<open>The maximum-spending solver\<close>

text \<open>
  The bracket expansion is a \<open>while\<close> loop, so it is a partial function: \<open>None\<close>
  would be a loop that never ends. \<open>expand_hi_returns\<close> below shows that it
  returns. \<open>Math.round\<close> rounds halves up.

  After the bisection the handler executes \<open>solvedInitialExpense = Math.round(lo)\<close>
  (line 323), while \<open>solvedInitialExpense\<close> is a \<open>let\<close> binding declared further
  down in the same block (line 326). The right-hand side is evaluated, and the
  assignment to the binding before its declaration throws a ReferenceError, which
  the handler's \<open>catch\<close> answers with status 500. \<open>assign_before_declaration\<close> is
  that assignment; \<open>solveExpenses\<close> is the block of the handler for this mode.
\<close>

datatype error = ReferenceError

partial_function (option) expand_hi :: "inputs \<Rightarrow> nat \<Rightarrow> real \<Rightarrow> real \<Rightarrow> real option" where
  "expand_hi d yearsToPlanLocal rrspWForSolve hi =
     (if \<not> depletedEarly (runProjection d hi yearsToPlanLocal rrspWForSolve) \<and> hi < 1000000000
      then expand_hi d yearsToPlanLocal rrspWForSolve (hi * 2)
      else Some hi)"

definition bisect_step :: "inputs \<Rightarrow> nat \<Rightarrow> real \<Rightarrow> real \<times> real \<Rightarrow> real \<times> real" where
  "bisect_step d yearsToPlanLocal rrspWForSolve =
     (\<lambda>(lo, hi).
        (let mid = (lo + hi) / 2;
             r = runProjection d mid yearsToPlanLocal rrspWForSolve
         in if depletedEarly r then (lo, mid) else (mid, hi)))"

definition bisect :: "inputs \<Rightarrow> nat \<Rightarrow> real \<Rightarrow> real \<Rightarrow> real \<times> real" where
  "bisect d yearsToPlanLocal rrspWForSolve hi =
     fold (\<lambda>i. bisect_step d yearsToPlanLocal rrspWForSolve) [0..<50] (0, hi)"

definition Math_round :: "real \<Rightarrow> int" where
  "Math_round x = \<lfloor>x + 1 / 2\<rfloor>"

definition assign_before_declaration :: "int \<Rightarrow> error + int" where
  "assign_before_declaration v = Inl ReferenceError"

definition solveExpenses :: "inputs \<Rightarrow> (error + int) option" where
  "solveExpenses d =
     (let yearsToPlan = max 1 (yearsToPlanInput d);
          yearsToPlanLocal = nat (max 1 yearsToPlan);
          rrspWForSolve = solveRrspWForHorizon d yearsToPlanLocal;
          hi0 = max 1000
                  ((rrspInitialBalance d + tfsaInitialBalance d + nonRegisteredInitialBalance d) * 2)
      in case expand_hi d yearsToPlanLocal rrspWForSolve hi0 of
           None \<Rightarrow> None
         | Some hi \<Rightarrow>
             Some (assign_before_declaration
                     (Math_round (fst (bisect d yearsToPlanLocal rrspWForSolve hi)))))"

section \<open>The maximum-horizon solver\<close>

text \<open>
  The fixed-point loop returns the candidate \<open>N\<close> it stops with and, when it set
  them, \<open>(yearsToPlanFinal, rrspWithdrawFixedFinal)\<close>; \<open>None\<close> stands for the
  \<open>null\<close> the handler tests after the loop. The cap \<open>MAX_YEARS_CAP\<close> is 120.
\<close>

function fixpoint_loop :: "inputs \<Rightarrow> nat \<Rightarrow> nat \<Rightarrow> nat \<times> (nat \<times> real) option" where
  "fixpoint_loop d iter N =
     (if iter < 25 then
        (let yearsSurvived = fst (simulateGivenN d N (expensesAnnual d)) in
         if yearsSurvived = N then (N, Some (N, solveRrspWForHorizon d N))
         else if yearsSurvived \<le> 0 then (yearsSurvived, Some (0, 0))
         else fixpoint_loop d (iter + 1) yearsSurvived)
      else (N, None))"
  by pat_completeness auto
termination
  by (relation "measure (\<lambda>(d, iter, N). 25 - iter)") auto

declare fixpoint_loop.simps [simp del]

definition findMaxYears :: "inputs \<Rightarrow> nat \<times> real" where
  "findMaxYears d =
     (case fixpoint_loop d 0 120 of
        (N, Some (yearsToPlanFinal, rrspWithdrawFixedFinal)) \<Rightarrow>
          (yearsToPlanFinal, rrspWithdrawFixedFinal)
      | (N, None) \<Rightarrow>
          (let yearsToPlanFinal = max 1 N
           in (yearsToPlanFinal, solveRrspWForHorizon d yearsToPlanFinal)))"

section \<open>The loop as a sequence of states\<close>

text \<open>
  \<open>state_at d E W t\<close> is the loop's state after \<open>t\<close> passes that did not break, and
  \<open>row_at d E W t\<close> the row the pass for year \<open>t\<close> pushes. They serve to index
  the rows of \<open>runProjection\<close>.
\<close>

primrec state_at :: "inputs \<Rightarrow> real \<Rightarrow> real \<Rightarrow> nat \<Rightarrow> loop_state" where
  "state_at d E W 0 = init_state d"
| "state_at d E W (Suc t) = year_step d E W t (state_at d E W t)"

definition row_at :: "inputs \<Rightarrow> real \<Rightarrow> real \<Rightarrow> nat \<Rightarrow> row" where
  "row_at d E W t = fst (year_row d E W t (state_at d E W t))"

text \<open>
  For the proofs: the branch taken in year \<open>t\<close> with its arguments spelled out, and
  the floor applied to the two closing balances that have one.
\<close>

definition ladder :: "inputs \<Rightarrow> real \<Rightarrow> real \<Rightarrow> nat \<Rightarrow> loop_state \<Rightarrow> real \<times> real \<times> real \<times> real \<times> bool" where
  "ladder d E W t st =
     (let tfsaTarget = (if nonrCleared st then 0 else tfsaContribute d);
          tfsaInit = (if t = 0 then tfsaInitialBalance d else tfsaEndPrev st * (1 + tfsaRoi d));
          nonrInit = (if t = 0 then nonRegisteredInitialBalance d
                      else nonrEndPrev st * (1 + nonRegisteredRoi d))
      in
      if t < yearsToRetire d
      then preRet (incomeAnnual d) (E * (1 + inflationRate d) ^ t) (rrspContribute d)
             tfsaTarget tfsaInit nonrInit (depletedEarly st)
      else postRet tfsaTarget (E * (1 + inflationRate d) ^ t) W
             tfsaInit nonrInit (depletedEarly st))"

definition floor_eps :: "real \<Rightarrow> real" where
  "floor_eps x = (if x < EPS then 0 else x)"

section \<open>Example requests\<close>

definition zero_inputs :: inputs where
  "zero_inputs =
     \<lparr> currentAge = 40, yearsToRetire = 0, yearsToPlanInput = 1,
       incomeAnnual = 0, expensesAnnual = 0, inflationRate = 0,
       rrspInitialBalance = 0, rrspContribute = 0, rrspRoi = 0,
       tfsaInitialBalance = 0, tfsaContribute = 0, tfsaRoi = 0,
       nonRegisteredInitialBalance = 0, nonRegisteredRoi = 0 \<rparr>"

text \<open>Two working years with a tax-deferred contribution of 100 and no income.\<close>

definition unfunded_inputs :: inputs where
  "unfunded_inputs = zero_inputs \<lparr> yearsToRetire := 2, rrspContribute := 100 \<rparr>"

text \<open>The tax-free contribution target of year \<open>t\<close>.\<close>

definition target_at :: "inputs \<Rightarrow> real \<Rightarrow> real \<Rightarrow> nat \<Rightarrow> real" where
  "target_at d E W t = (if nonrCleared (state_at d E W t) then 0 else tfsaContribute d)"

text \<open>The scenario of the specification's testable properties.\<close>

definition scenario_inputs :: inputs where
  "scenario_inputs =
     \<lparr> currentAge = 40, yearsToRetire = 25, yearsToPlanInput = 30,
       incomeAnnual = 80000, expensesAnnual = 50000, inflationRate = 1 / 50,
       rrspInitialBalance = 100000, rrspContribute = 5000, rrspRoi = 1 / 20,
       tfsaInitialBalance = 50000, tfsaContribute = 7000, tfsaRoi = 1 / 20,
       nonRegisteredInitialBalance = 20000, nonRegisteredRoi = 1 / 25 \<rparr>"

text \<open>One working year, a taxable account that starts at -1000.\<close>

definition overdrawn_inputs :: inputs where
  "overdrawn_inputs = zero_inputs \<lparr> yearsToRetire := 1, nonRegisteredInitialBalance := - 1000 \<rparr>"

text \<open>
  One working year and one retirement year; the tax-deferred account starts at
  0.0000000005.
\<close>

definition speck_inputs :: inputs where
  "speck_inputs = zero_inputs \<lparr> yearsToRetire := 1, rrspInitialBalance := 1 / 2000000000 \<rparr>"

text \<open>
  Two working years: income 100, expense 50, a tax-free contribution of 50 and an
  empty taxable account.
\<close>

definition saver_inputs :: inputs where
  "saver_inputs =
     zero_inputs \<lparr> yearsToRetire := 2, incomeAnnual := 100, expensesAnnual := 50,
       tfsaContribute := 50 \<rparr>"

text \<open>
  Retired from the start; the tax-free account starts at 0.0000000005 and doubles
  every year.
\<close>

definition dust_inputs :: inputs where
  "dust_inputs = zero_inputs \<lparr> tfsaInitialBalance := 1 / 2000000000, tfsaRoi := 1 \<rparr>"

text \<open>
  Two working years in which income equals expense (both 0) and nothing is
  contributed: three accounts that only grow.
\<close>

definition idle_inputs :: inputs where
  "idle_inputs =
     zero_inputs \<lparr> yearsToRetire := 2,
       rrspInitialBalance := 1000, rrspRoi := 1 / 10,
       tfsaInitialBalance := 2000, tfsaRoi := 1 / 20,
       nonRegisteredInitialBalance := 3000, nonRegisteredRoi := 1 / 25 \<rparr>"

text \<open>
  Retired from the start: a tax-deferred balance of 150, a tax-free contribution
  of 100, a taxable balance of 1000.
\<close>

definition surplus_inputs :: inputs where
  "surplus_inputs =
     zero_inputs \<lparr> expensesAnnual := 100, rrspInitialBalance := 150, tfsaContribute := 100,
       nonRegisteredInitialBalance := 1000 \<rparr>"

text \<open>Retired from the start: a taxable balance of 30 and a tax-free balance of 20.\<close>

definition short_inputs :: inputs where
  "short_inputs =
     zero_inputs \<lparr> expensesAnnual := 100, tfsaInitialBalance := 20,
       nonRegisteredInitialBalance := 30 \<rparr>"

text \<open>The body of the loop in \<open>simulate_exact\<close>, for the proofs.\<close>

definition rrsp_step :: "nat \<Rightarrow> real \<Rightarrow> real \<Rightarrow> real \<Rightarrow> real \<Rightarrow> nat \<Rightarrow> real \<Rightarrow> real" where
  "rrsp_step R S c r W t p =
     (if t = 0 then S else p * (1 + r)) + (if t < R then c else 0) - (if t \<ge> R then W else 0)"

text \<open>
  One working year funded by income, two retirement years; and a tax-deferred
  account that starts at -100.
\<close>

definition pension_inputs :: inputs where
  "pension_inputs =
     zero_inputs \<lparr> yearsToRetire := 1, incomeAnnual := 100,
       rrspInitialBalance := 1000, rrspContribute := 100, rrspRoi := 1 / 10 \<rparr>"

definition debt_inputs :: inputs where
  "debt_inputs = zero_inputs \<lparr> rrspInitialBalance := - 100 \<rparr>"

text \<open>The invariant of the bisection.\<close>

definition bracket :: "inputs \<Rightarrow> nat \<Rightarrow> real \<Rightarrow> real \<Rightarrow> nat \<Rightarrow> real \<times> real \<Rightarrow> bool" where
  "bracket d N W hi0 n = (\<lambda>(lo, hi).
     0 \<le> lo \<and> lo \<le> hi \<and> hi \<le> hi0 \<and> hi - lo = hi0 / 2 ^ n \<and>
     (lo = 0 \<or> \<not> depletedEarly (runProjection d lo N W)) \<and>
     (hi = hi0 \<or> depletedEarly (runProjection d hi N W)))"

text \<open>
  The survived count of a candidate horizon, and the candidates the fixed-point
  loop goes through.
\<close>

definition yearsSurvived :: "inputs \<Rightarrow> nat \<Rightarrow> nat" where
  "yearsSurvived d N = fst (simulateGivenN d N (expensesAnnual d))"

definition candidate :: "inputs \<Rightarrow> nat \<Rightarrow> nat" where
  "candidate d k = (yearsSurvived d ^^ k) 120"

lemma EPS_pos: "0 < EPS"
  by (simp add: EPS_def)

lemma rows_year_step: "rows (year_step d E W t st) = rows st @ [fst (year_row d E W t st)]"
  by (simp add: year_step_def split: prod.splits)

lemma rows_state_at: "rows (state_at d E W k) = map (row_at d E W) [0..<k]"
  by (induction k) (simp_all add: init_state_def rows_year_step row_at_def)

lemma length_rows_state_at: "length (rows (state_at d E W k)) = k"
  by (simp add: rows_state_at)

lemma depleted_preRet_sticky:
  "preRet i e c tc ti ni True = (a1, a2, a3, a4, f) \<Longrightarrow> f"
  by (auto simp add: preRet_def Let_def split: if_splits)

lemma depleted_postRet_sticky:
  "postRet tt e w ti ni True = (a1, a2, a3, a4, f) \<Longrightarrow> f"
  by (auto simp add: postRet_def Let_def split: if_splits)

lemma depletedEarly_year_step:
  "depletedEarly (year_step d E W t st) = snd (year_row d E W t st)"
  by (simp add: year_step_def split: prod.splits)

lemma snd_year_row:
  "snd (year_row d E W t st) =
     snd (snd (snd (snd
       (if t < yearsToRetire d
        then preRet (if t < yearsToRetire d then incomeAnnual d else 0)
               (E * (1 + inflationRate d) ^ t)
               (if t < yearsToRetire d then rrspContribute d else 0)
               (if nonrCleared st then 0 else tfsaContribute d)
               (if t = 0 then tfsaInitialBalance d else tfsaEndPrev st * (1 + tfsaRoi d))
               (if t = 0 then nonRegisteredInitialBalance d
                else nonrEndPrev st * (1 + nonRegisteredRoi d))
               (depletedEarly st)
        else postRet (if nonrCleared st then 0 else tfsaContribute d)
               (E * (1 + inflationRate d) ^ t)
               (if t \<ge> yearsToRetire d then W else 0)
               (if t = 0 then tfsaInitialBalance d else tfsaEndPrev st * (1 + tfsaRoi d))
               (if t = 0 then nonRegisteredInitialBalance d
                else nonrEndPrev st * (1 + nonRegisteredRoi d))
               (depletedEarly st)))))"
  unfolding year_row_def Let_def by (simp split: prod.splits)

lemma depleted_year_step_sticky:
  assumes "depletedEarly st"
  shows "depletedEarly (year_step d E W t st)"
proof -
  have pre: "snd (snd (snd (snd (preRet i e c tc ti ni True))))" for i e c tc ti ni
    by (cases "preRet i e c tc ti ni True") (auto dest: depleted_preRet_sticky)
  have post: "snd (snd (snd (snd (postRet tt e w ti ni True))))" for tt e w ti ni
    by (cases "postRet tt e w ti ni True") (auto dest: depleted_postRet_sticky)
  show ?thesis
    unfolding depletedEarly_year_step snd_year_row using assms pre post
    by (simp del: One_nat_def)
qed

lemma proj_loop_done: "\<not> t < N \<Longrightarrow> proj_loop d E N W t st = st"
  by (subst proj_loop.simps) simp

lemma proj_loop_break:
  "t < N \<Longrightarrow> depletedEarly (year_step d E W t st) \<Longrightarrow> int t < int N - 1 \<Longrightarrow>
   proj_loop d E N W t st = year_step d E W t st"
  by (subst proj_loop.simps) (simp add: Let_def)

lemma proj_loop_continue:
  "t < N \<Longrightarrow> \<not> (depletedEarly (year_step d E W t st) \<and> int t < int N - 1) \<Longrightarrow>
   proj_loop d E N W t st = proj_loop d E N W (Suc t) (year_step d E W t st)"
  by (subst proj_loop.simps) (auto simp add: Let_def)

lemma proj_loop_state_at:
  "N - t = n \<Longrightarrow> t \<le> N \<Longrightarrow>
   \<exists>k. t \<le> k \<and> k \<le> N \<and> (t < N \<longrightarrow> t < k) \<and>
       proj_loop d E N W t (state_at d E W t) = state_at d E W k \<and>
       (k < N \<longrightarrow> depletedEarly (state_at d E W k)) \<and>
       (\<forall>j. t < j \<and> j < k \<longrightarrow> \<not> depletedEarly (state_at d E W j))"
proof (induction n arbitrary: t)
  case 0
  then have "t = N" by simp
  then show ?case by (intro exI[of _ N]) (auto simp: proj_loop_done)
next
  case (Suc n)
  then have tN: "t < N" by simp
  let ?st' = "year_step d E W t (state_at d E W t)"
  have st': "?st' = state_at d E W (Suc t)" by simp
  show ?case
  proof (cases "depletedEarly ?st' \<and> int t < int N - 1")
    case True
    then have "proj_loop d E N W t (state_at d E W t) = state_at d E W (Suc t)"
      using tN by (simp add: proj_loop_break)
    moreover have "Suc t < N" using True by simp
    moreover have "\<forall>j. t < j \<and> j < Suc t \<longrightarrow> \<not> depletedEarly (state_at d E W j)"
      by auto
    ultimately show ?thesis using True tN
      by (intro exI[of _ "Suc t"] conjI) simp_all
  next
    case False
    have eq: "proj_loop d E N W t (state_at d E W t) = proj_loop d E N W (Suc t) (state_at d E W (Suc t))"
      using tN False by (simp add: proj_loop_continue)
    have "N - Suc t = n" "Suc t \<le> N" using Suc.prems tN by simp_all
    from Suc.IH[OF this] obtain k where k:
      "Suc t \<le> k" "k \<le> N" "Suc t < N \<longrightarrow> Suc t < k"
      "proj_loop d E N W (Suc t) (state_at d E W (Suc t)) = state_at d E W k"
      "k < N \<longrightarrow> depletedEarly (state_at d E W k)"
      "\<forall>j. Suc t < j \<and> j < k \<longrightarrow> \<not> depletedEarly (state_at d E W j)"
      by blast
    have nd: "Suc t < k \<longrightarrow> \<not> depletedEarly (state_at d E W (Suc t))"
      using False k(2) by auto
    have "\<forall>j. t < j \<and> j < k \<longrightarrow> \<not> depletedEarly (state_at d E W j)"
    proof (intro allI impI)
      fix j assume j: "t < j \<and> j < k"
      show "\<not> depletedEarly (state_at d E W j)"
      proof (cases "j = Suc t")
        case True
        then show ?thesis using nd j by simp
      next
        case False
        then show ?thesis using k(6) j by simp
      qed
    qed
    moreover have "t \<le> k" "t < k" using k(1) by simp_all
    ultimately show ?thesis using k(2,4,5) eq
      by (intro exI[of _ k] conjI) simp_all
  qed
qed

lemma runProjection_rows: "rows (runProjection d E N W) = rows (proj_loop d E N W 0 (init_state d))"
  by (simp add: runProjection_def Let_def)

lemma runProjection_depleted:
  "depletedEarly (runProjection d E N W) = depletedEarly (proj_loop d E N W 0 (init_state d))"
  by (simp add: runProjection_def Let_def)

lemma stop_year_ex:
  "\<exists>k. k \<le> N \<and> (0 < N \<longrightarrow> 0 < k) \<and>
       proj_loop d E N W 0 (init_state d) = state_at d E W k \<and>
       (k < N \<longrightarrow> depletedEarly (state_at d E W k)) \<and>
       (\<forall>j < k. \<not> depletedEarly (state_at d E W j))"
proof -
  from proj_loop_state_at[of N 0 N d E W] obtain k where k:
    "k \<le> N" "0 < N \<longrightarrow> 0 < k"
    "proj_loop d E N W 0 (state_at d E W 0) = state_at d E W k"
    "k < N \<longrightarrow> depletedEarly (state_at d E W k)"
    "\<forall>j. 0 < j \<and> j < k \<longrightarrow> \<not> depletedEarly (state_at d E W j)"
    by auto
  have "\<not> depletedEarly (state_at d E W j)" if "j < k" for j
  proof (cases j)
    case 0
    then show ?thesis by (simp add: init_state_def)
  next
    case (Suc i)
    then have "0 < j \<and> j < k" using that by simp
    then show ?thesis using k(5) by blast
  qed
  then show ?thesis using k by (intro exI[of _ k]) simp
qed

lemma stop_year_unique:
  assumes "k \<le> N" "k < N \<longrightarrow> depletedEarly (state_at d E W k)" "\<forall>j < k. \<not> depletedEarly (state_at d E W j)"
    and "k' \<le> N'" "k' < N' \<longrightarrow> depletedEarly (state_at d E W k')" "\<forall>j < k'. \<not> depletedEarly (state_at d E W j)"
    and "N' \<le> k"
  shows "k' = N'"
proof (rule ccontr)
  assume "k' \<noteq> N'"
  then have "k' < N'" using assms(4) by simp
  then have "depletedEarly (state_at d E W k')" using assms(5) by simp
  moreover have "k' < k" using \<open>k' < N'\<close> assms(7) by simp
  ultimately show False using assms(3) by simp
qed

lemma year_row_ladder:
  "ladder d E W t st = (tc, tw, nc, nw, dep) \<Longrightarrow>
   year_row d E W t st =
     (\<lparr> age = currentAge d + int t,
        income = (if t < yearsToRetire d then incomeAnnual d else 0),
        expense = E * (1 + inflationRate d) ^ t,
        rrspInit = (if t = 0 then rrspInitialBalance d else rrspEndPrev st * (1 + rrspRoi d)),
        rrspC = (if t < yearsToRetire d then rrspContribute d else 0),
        rrspW = (if t \<ge> yearsToRetire d then W else 0),
        rrspEnd = (if t = 0 then rrspInitialBalance d else rrspEndPrev st * (1 + rrspRoi d))
                  + (if t < yearsToRetire d then rrspContribute d else 0)
                  - (if t \<ge> yearsToRetire d then W else 0),
        tfsaInit = (if t = 0 then tfsaInitialBalance d else tfsaEndPrev st * (1 + tfsaRoi d)),
        tfsaC = tc, tfsaW = tw,
        tfsaEnd = floor_eps ((if t = 0 then tfsaInitialBalance d
                              else tfsaEndPrev st * (1 + tfsaRoi d)) + tc - tw),
        nonrInit = (if t = 0 then nonRegisteredInitialBalance d
                    else nonrEndPrev st * (1 + nonRegisteredRoi d)),
        nonrC = nc, nonrW = nw,
        nonrEnd = floor_eps ((if t = 0 then nonRegisteredInitialBalance d
                              else nonrEndPrev st * (1 + nonRegisteredRoi d)) + nc - nw) \<rparr>,
      dep)"
  unfolding year_row_def ladder_def Let_def floor_eps_def
  by (simp split: if_splits)

section \<open>Row count and early stop\<close>

text \<open>
  C10. A run with a requested horizon of at least one year returns at least one row
  and at most the horizon. When the depletion flag is false the row count is the
  horizon; when the row count is below the horizon the flag is true, and the year
  that set it is the last row: the run that stops one year earlier returns the same
  rows without the last one and does not set the flag.
\<close>

theorem runProjection_row_count:
  assumes "1 \<le> N"
  shows "(let r = runProjection d E N W; n = length (rows r) in
          1 \<le> n \<and> n \<le> N \<and>
          (\<not> depletedEarly r \<longrightarrow> n = N) \<and>
          (n < N \<longrightarrow> depletedEarly r \<and>
             \<not> depletedEarly (runProjection d E (n - 1) W) \<and>
             rows (runProjection d E (n - 1) W) = butlast (rows r)))"
proof -
  obtain k where k: "k \<le> N" "0 < N \<longrightarrow> 0 < k"
      "proj_loop d E N W 0 (init_state d) = state_at d E W k"
      "k < N \<longrightarrow> depletedEarly (state_at d E W k)"
      "\<forall>j < k. \<not> depletedEarly (state_at d E W j)"
    using stop_year_ex[of N d E W] by blast
  define m where "m = k - 1"
  obtain k' where k': "k' \<le> m"
      "proj_loop d E m W 0 (init_state d) = state_at d E W k'"
      "k' < m \<longrightarrow> depletedEarly (state_at d E W k')"
      "\<forall>j < k'. \<not> depletedEarly (state_at d E W j)"
    using stop_year_ex[of m d E W] by blast
  have "m \<le> k" by (simp add: m_def)
  from stop_year_unique[OF k(1,4,5) k'(1,3,4) this] have kk: "k' = m" .
  have kpos: "1 \<le> k" using k(2) assms by simp
  then have km: "k = Suc m" by (simp add: m_def)
  have len: "length (rows (runProjection d E N W)) = k"
    by (simp add: runProjection_rows k(3) length_rows_state_at)
  have nd: "\<not> depletedEarly (state_at d E W m)" using k(5) km by blast
  have bl: "rows (state_at d E W m) = butlast (rows (state_at d E W k))"
    unfolding km by (simp add: rows_year_step)
  have r1: "\<not> depletedEarly (runProjection d E m W)"
    using nd by (simp add: runProjection_depleted k'(2) kk)
  have r2: "rows (runProjection d E m W) = butlast (rows (runProjection d E N W))"
    using bl by (simp add: runProjection_rows k'(2) kk k(3))
  have r3: "depletedEarly (runProjection d E N W) = depletedEarly (state_at d E W k)"
    by (simp add: runProjection_depleted k(3))
  have "1 \<le> k \<and> k \<le> N \<and>
          (\<not> depletedEarly (runProjection d E N W) \<longrightarrow> k = N) \<and>
          (k < N \<longrightarrow> depletedEarly (runProjection d E N W) \<and>
             \<not> depletedEarly (runProjection d E m W) \<and>
             rows (runProjection d E m W) = butlast (rows (runProjection d E N W)))"
    using kpos k(1,4) r1 r2 r3 by auto
  then show ?thesis
    unfolding Let_def len m_def .
qed


theorem runProjection_row_count_witness:
  "(1::nat) \<le> 3 \<and> length (rows (runProjection unfunded_inputs 0 3 0)) = 1 \<and>
   depletedEarly (runProjection unfunded_inputs 0 3 0) \<and>
   \<not> depletedEarly (runProjection unfunded_inputs 0 0 0) \<and>
   rows (runProjection unfunded_inputs 0 0 0) = butlast (rows (runProjection unfunded_inputs 0 3 0))"
proof -
  have len: "length (rows (runProjection unfunded_inputs 0 3 0)) = 1"
    by (simp add: runProjection_def proj_loop.simps init_state_def year_step_def year_row_def
        preRet_def postRet_def unfunded_inputs_def zero_inputs_def EPS_def)
  show ?thesis
    using runProjection_row_count [of 3 unfunded_inputs 0 0] len
    by (simp add: Let_def)
qed

section \<open>Rate normalisation\<close>

text \<open>
  C8, as amended. The rate used by the engine is the coerced number divided by 100
  when that number exceeds 1, and the coerced number itself otherwise. It is a
  fraction in [0, 1] exactly when the coerced number lies in [0, 100]: nothing
  bounds a larger or a negative input.
\<close>

theorem normalizeRate_fraction:
  "normalizeRate x = (if toNum x > 1 then toNum x / 100 else toNum x) \<and>
   ((0 \<le> normalizeRate x \<and> normalizeRate x \<le> 1) = (0 \<le> toNum x \<and> toNum x \<le> 100))"
  by (auto simp add: normalizeRate_def Let_def)

lemma toNum_150: "toNum (Text ''150'') = 150"
  by (simp add: toNum_def trim_def is_space_def is_digit_def js_Number_def unsigned_decimal_def
      digits_val_def digit_val_def Let_def)

lemma toNum_minus_5: "toNum (Text ''-5'') = - 5"
  by (simp add: toNum_def trim_def is_space_def is_digit_def js_Number_def unsigned_decimal_def
      digits_val_def digit_val_def Let_def)

text \<open>
  The claim as stated fails for the raw input \<open>150\<close>, which is normalised to 1.5,
  and for \<open>-5\<close>, which is used unchanged.
\<close>

theorem normalizeRate_fraction_counterexample:
  "normalizeRate (Text ''150'') = 3 / 2 \<and> \<not> normalizeRate (Text ''150'') \<le> 1 \<and>
   normalizeRate (Text ''-5'') = - 5 \<and> \<not> 0 \<le> normalizeRate (Text ''-5'')"
  by (simp add: normalizeRate_def toNum_150 toNum_minus_5)

section \<open>The rows of a run\<close>

lemma runProjection_rows_map:
  "rows (runProjection d E N W) = map (row_at d E W) [0..<length (rows (runProjection d E N W))]"
proof -
  obtain k where "proj_loop d E N W 0 (init_state d) = state_at d E W k"
    using stop_year_ex[of N d E W] by blast
  then have "rows (runProjection d E N W) = map (row_at d E W) [0..<k]"
    by (simp add: runProjection_rows rows_state_at)
  then show ?thesis by simp
qed

lemma runProjection_nth:
  assumes "t < length (rows (runProjection d E N W))"
  shows "rows (runProjection d E N W) ! t = row_at d E W t"
proof -
  have "rows (runProjection d E N W) ! t
        = map (row_at d E W) [0..<length (rows (runProjection d E N W))] ! t"
    using runProjection_rows_map[of d E N W] by simp
  also have "\<dots> = row_at d E W t" using assms by simp
  finally show ?thesis .
qed

lemma runProjection_flag:
  "t < length (rows (runProjection d E N W)) \<Longrightarrow> depletedEarly (state_at d E W (Suc t)) \<Longrightarrow>
   depletedEarly (runProjection d E N W)"
proof -
  assume t: "t < length (rows (runProjection d E N W))" and dep: "depletedEarly (state_at d E W (Suc t))"
  obtain k where k: "proj_loop d E N W 0 (init_state d) = state_at d E W k"
    using stop_year_ex[of N d E W] by blast
  then have len: "length (rows (runProjection d E N W)) = k"
    by (simp add: runProjection_rows length_rows_state_at)
  have sticky: "depletedEarly (state_at d E W (Suc t + n))" for n
    by (induction n) (use dep in \<open>auto intro: depleted_year_step_sticky\<close>)
  have "Suc t \<le> k" using t len by simp
  then obtain n where "k = Suc t + n" using le_Suc_ex by blast
  then have "depletedEarly (state_at d E W k)" using sticky by simp
  then show ?thesis by (simp add: runProjection_depleted k)
qed

text \<open>The fields of \<open>row_at\<close> and the state after it.\<close>

lemma row_at_ladder:
  assumes "ladder d E W t (state_at d E W t) = (tc, tw, nc, nw, dep)"
  shows "row_at d E W t =
     \<lparr> age = currentAge d + int t,
        income = (if t < yearsToRetire d then incomeAnnual d else 0),
        expense = E * (1 + inflationRate d) ^ t,
        rrspInit = (if t = 0 then rrspInitialBalance d
                    else rrspEndPrev (state_at d E W t) * (1 + rrspRoi d)),
        rrspC = (if t < yearsToRetire d then rrspContribute d else 0),
        rrspW = (if t \<ge> yearsToRetire d then W else 0),
        rrspEnd = (if t = 0 then rrspInitialBalance d
                   else rrspEndPrev (state_at d E W t) * (1 + rrspRoi d))
                  + (if t < yearsToRetire d then rrspContribute d else 0)
                  - (if t \<ge> yearsToRetire d then W else 0),
        tfsaInit = (if t = 0 then tfsaInitialBalance d
                    else tfsaEndPrev (state_at d E W t) * (1 + tfsaRoi d)),
        tfsaC = tc, tfsaW = tw,
        tfsaEnd = floor_eps ((if t = 0 then tfsaInitialBalance d
                              else tfsaEndPrev (state_at d E W t) * (1 + tfsaRoi d)) + tc - tw),
        nonrInit = (if t = 0 then nonRegisteredInitialBalance d
                    else nonrEndPrev (state_at d E W t) * (1 + nonRegisteredRoi d)),
        nonrC = nc, nonrW = nw,
        nonrEnd = floor_eps ((if t = 0 then nonRegisteredInitialBalance d
                              else nonrEndPrev (state_at d E W t) * (1 + nonRegisteredRoi d))
                             + nc - nw) \<rparr>"
  unfolding row_at_def year_row_ladder[OF assms] by simp

lemma state_at_Suc_fields:
  "rrspEndPrev (state_at d E W (Suc t)) = rrspEnd (row_at d E W t)"
  "tfsaEndPrev (state_at d E W (Suc t)) = tfsaEnd (row_at d E W t)"
  "nonrEndPrev (state_at d E W (Suc t)) = nonrEnd (row_at d E W t)"
  "nonrCleared (state_at d E W (Suc t)) =
     (nonrEnd (row_at d E W t) = 0 \<or> nonrCleared (state_at d E W t))"
  "depletedEarly (state_at d E W (Suc t)) = snd (year_row d E W t (state_at d E W t))"
  by (simp_all add: year_step_def row_at_def split: prod.splits)

lemma state_at_0_fields:
  "rrspEndPrev (state_at d E W 0) = rrspInitialBalance d"
  "tfsaEndPrev (state_at d E W 0) = tfsaInitialBalance d"
  "nonrEndPrev (state_at d E W 0) = nonRegisteredInitialBalance d"
  "nonrCleared (state_at d E W 0) = False"
  "depletedEarly (state_at d E W 0) = False"
  by (simp_all add: init_state_def)

lemma floor_eps_cases: "floor_eps x = 0 \<or> EPS \<le> floor_eps x"
  by (simp add: floor_eps_def)

lemma floor_eps_nonneg: "0 \<le> floor_eps x"
  using EPS_pos by (simp add: floor_eps_def)

lemma floor_eps_near: "- EPS \<le> x \<Longrightarrow> \<bar>floor_eps x - x\<bar> \<le> EPS"
  using EPS_pos by (auto simp add: floor_eps_def)

lemma row_at_openings_state:
  "rrspInit (row_at d E W t) =
     (if t = 0 then rrspInitialBalance d else rrspEndPrev (state_at d E W t) * (1 + rrspRoi d))"
  "tfsaInit (row_at d E W t) =
     (if t = 0 then tfsaInitialBalance d else tfsaEndPrev (state_at d E W t) * (1 + tfsaRoi d))"
  "nonrInit (row_at d E W t) =
     (if t = 0 then nonRegisteredInitialBalance d
      else nonrEndPrev (state_at d E W t) * (1 + nonRegisteredRoi d))"
proof -
  obtain tc tw nc nw dep where l: "ladder d E W t (state_at d E W t) = (tc, tw, nc, nw, dep)"
    by (metis prod_cases5)
  show "rrspInit (row_at d E W t) =
     (if t = 0 then rrspInitialBalance d else rrspEndPrev (state_at d E W t) * (1 + rrspRoi d))"
    by (simp add: row_at_ladder[OF l])
  show "tfsaInit (row_at d E W t) =
     (if t = 0 then tfsaInitialBalance d else tfsaEndPrev (state_at d E W t) * (1 + tfsaRoi d))"
    by (simp add: row_at_ladder[OF l])
  show "nonrInit (row_at d E W t) =
     (if t = 0 then nonRegisteredInitialBalance d
      else nonrEndPrev (state_at d E W t) * (1 + nonRegisteredRoi d))"
    by (simp add: row_at_ladder[OF l])
qed

lemma row_at_openings:
  "rrspInit (row_at d E W t) =
     (if t = 0 then rrspInitialBalance d else rrspEnd (row_at d E W (t - 1)) * (1 + rrspRoi d))"
  "tfsaInit (row_at d E W t) =
     (if t = 0 then tfsaInitialBalance d else tfsaEnd (row_at d E W (t - 1)) * (1 + tfsaRoi d))"
  "nonrInit (row_at d E W t) =
     (if t = 0 then nonRegisteredInitialBalance d
      else nonrEnd (row_at d E W (t - 1)) * (1 + nonRegisteredRoi d))"
  unfolding row_at_openings_state
  by (cases t; simp add: state_at_Suc_fields del: state_at.simps)+

lemma row_at_closings:
  "rrspEnd (row_at d E W t) = rrspInit (row_at d E W t) + rrspC (row_at d E W t) - rrspW (row_at d E W t)"
  "tfsaEnd (row_at d E W t) =
     floor_eps (tfsaInit (row_at d E W t) + tfsaC (row_at d E W t) - tfsaW (row_at d E W t))"
  "nonrEnd (row_at d E W t) =
     floor_eps (nonrInit (row_at d E W t) + nonrC (row_at d E W t) - nonrW (row_at d E W t))"
proof -
  obtain tc tw nc nw dep where l: "ladder d E W t (state_at d E W t) = (tc, tw, nc, nw, dep)"
    by (metis prod_cases5)
  show "rrspEnd (row_at d E W t) = rrspInit (row_at d E W t) + rrspC (row_at d E W t) - rrspW (row_at d E W t)"
    by (simp add: row_at_ladder[OF l])
  show "tfsaEnd (row_at d E W t) =
     floor_eps (tfsaInit (row_at d E W t) + tfsaC (row_at d E W t) - tfsaW (row_at d E W t))"
    by (simp add: row_at_ladder[OF l])
  show "nonrEnd (row_at d E W t) =
     floor_eps (nonrInit (row_at d E W t) + nonrC (row_at d E W t) - nonrW (row_at d E W t))"
    by (simp add: row_at_ladder[OF l])
qed

lemma row_at_scalars:
  "age (row_at d E W t) = currentAge d + int t"
  "income (row_at d E W t) = (if t < yearsToRetire d then incomeAnnual d else 0)"
  "expense (row_at d E W t) = E * (1 + inflationRate d) ^ t"
  "rrspC (row_at d E W t) = (if t < yearsToRetire d then rrspContribute d else 0)"
  "rrspW (row_at d E W t) = (if t \<ge> yearsToRetire d then W else 0)"
proof -
  obtain tc tw nc nw dep where l: "ladder d E W t (state_at d E W t) = (tc, tw, nc, nw, dep)"
    by (metis prod_cases5)
  show "age (row_at d E W t) = currentAge d + int t"
    "income (row_at d E W t) = (if t < yearsToRetire d then incomeAnnual d else 0)"
    "expense (row_at d E W t) = E * (1 + inflationRate d) ^ t"
    "rrspC (row_at d E W t) = (if t < yearsToRetire d then rrspContribute d else 0)"
    "rrspW (row_at d E W t) = (if t \<ge> yearsToRetire d then W else 0)"
    by (simp_all add: row_at_ladder[OF l])
qed

lemma ladder_row_at:
  "ladder d E W t (state_at d E W t) =
     (tfsaC (row_at d E W t), tfsaW (row_at d E W t), nonrC (row_at d E W t),
      nonrW (row_at d E W t), depletedEarly (state_at d E W (Suc t)))"
proof -
  obtain tc tw nc nw dep where l: "ladder d E W t (state_at d E W t) = (tc, tw, nc, nw, dep)"
    by (metis prod_cases5)
  have "depletedEarly (state_at d E W (Suc t)) = dep"
    by (simp add: state_at_Suc_fields(5) year_row_ladder[OF l] del: state_at.simps)
  then show ?thesis
    by (simp add: l row_at_ladder[OF l])
qed

lemma row_at_preRet:
  assumes "t < yearsToRetire d"
  shows "preRet (incomeAnnual d) (expense (row_at d E W t)) (rrspContribute d) (target_at d E W t)
           (tfsaInit (row_at d E W t)) (nonrInit (row_at d E W t)) (depletedEarly (state_at d E W t))
         = (tfsaC (row_at d E W t), tfsaW (row_at d E W t), nonrC (row_at d E W t),
            nonrW (row_at d E W t), depletedEarly (state_at d E W (Suc t)))"
  using assms ladder_row_at[of d E W t]
  unfolding ladder_def Let_def row_at_openings_state row_at_scalars target_at_def
  by simp

lemma row_at_postRet:
  assumes "yearsToRetire d \<le> t"
  shows "postRet (target_at d E W t) (expense (row_at d E W t)) W
           (tfsaInit (row_at d E W t)) (nonrInit (row_at d E W t)) (depletedEarly (state_at d E W t))
         = (tfsaC (row_at d E W t), tfsaW (row_at d E W t), nonrC (row_at d E W t),
            nonrW (row_at d E W t), depletedEarly (state_at d E W (Suc t)))"
  using assms ladder_row_at[of d E W t]
  unfolding ladder_def Let_def row_at_openings_state row_at_scalars target_at_def
  by simp

lemma nonrCleared_iff:
  "nonrCleared (state_at d E W t) = (\<exists>i<t. nonrEnd (row_at d E W i) = 0)"
proof (induction t)
  case 0
  then show ?case by (simp add: init_state_def)
next
  case (Suc t)
  have "nonrCleared (state_at d E W (Suc t)) =
     (nonrEnd (row_at d E W t) = 0 \<or> nonrCleared (state_at d E W t))"
    by (rule state_at_Suc_fields(4))
  also have "\<dots> = (nonrEnd (row_at d E W t) = 0 \<or> (\<exists>i<t. nonrEnd (row_at d E W i) = 0))"
    using Suc.IH by simp
  also have "\<dots> = (\<exists>i<Suc t. nonrEnd (row_at d E W i) = 0)"
    using less_Suc_eq by auto
  finally show ?case .
qed

text \<open>What the two branches do to the raw closing balances.\<close>

lemma preRet_raw:
  assumes "preRet i e c tc ti ni dep = (tc', tw, nc, nw, dep')"
    and "0 \<le> ni" "0 \<le> ti" "0 \<le> tc"
  shows "- EPS \<le> ni + nc - nw \<and> - EPS \<le> ti + tc' - tw"
  using assms EPS_pos
  by (auto simp add: preRet_def Let_def min_def split: if_splits)

lemma postRet_raw:
  assumes "postRet tt e w ti ni dep = (tc', tw, nc, nw, dep')"
    and "0 \<le> ni" "0 \<le> ti" "0 \<le> tt"
  shows "- EPS \<le> ni + nc - nw \<and> - EPS \<le> ti + tc' - tw"
  using assms EPS_pos
  by (auto simp add: postRet_def Let_def min_def max_def split: if_splits)

lemma preRet_target_zero:
  assumes "preRet i e c 0 ti ni dep = (tc', tw, nc, nw, dep')"
  shows "tc' = 0"
  using assms by (auto simp add: preRet_def Let_def split: if_splits)

lemma postRet_target_zero:
  assumes "postRet 0 e w ti ni dep = (tc', tw, nc, nw, dep')"
  shows "tc' = 0"
  using assms by (auto simp add: postRet_def Let_def min_def max_def split: if_splits)

lemma openings_nonneg:
  assumes "0 \<le> tfsaInitialBalance d" "0 \<le> nonRegisteredInitialBalance d"
    and "- 1 \<le> tfsaRoi d" "- 1 \<le> nonRegisteredRoi d"
  shows "0 \<le> tfsaInit (row_at d E W t) \<and> 0 \<le> nonrInit (row_at d E W t)"
proof (cases t)
  case 0
  then show ?thesis using assms by (simp add: row_at_openings)
next
  case (Suc n)
  have "0 \<le> tfsaEnd (row_at d E W n) * (1 + tfsaRoi d)"
    using assms(3) by (simp add: row_at_closings floor_eps_nonneg)
  moreover have "0 \<le> nonrEnd (row_at d E W n) * (1 + nonRegisteredRoi d)"
    using assms(4) by (simp add: row_at_closings floor_eps_nonneg)
  ultimately show ?thesis using Suc by (simp add: row_at_openings)
qed

lemma target_at_nonneg: "0 \<le> tfsaContribute d \<Longrightarrow> 0 \<le> target_at d E W t"
  by (simp add: target_at_def)

lemma row_at_raw:
  assumes "0 \<le> tfsaInitialBalance d" "0 \<le> nonRegisteredInitialBalance d"
    and "- 1 \<le> tfsaRoi d" "- 1 \<le> nonRegisteredRoi d" "0 \<le> tfsaContribute d"
  shows "- EPS \<le> nonrInit (row_at d E W t) + nonrC (row_at d E W t) - nonrW (row_at d E W t) \<and>
         - EPS \<le> tfsaInit (row_at d E W t) + tfsaC (row_at d E W t) - tfsaW (row_at d E W t)"
proof (cases "t < yearsToRetire d")
  case True
  show ?thesis
    using preRet_raw[OF row_at_preRet[OF True, of E W]]
      openings_nonneg[OF assms(1-4), of E W t] target_at_nonneg[OF assms(5), of E W t]
    by blast
next
  case False
  then have "yearsToRetire d \<le> t" by simp
  from postRet_raw[OF row_at_postRet[OF this, of E W]]
      openings_nonneg[OF assms(1-4), of E W t] target_at_nonneg[OF assms(5), of E W t]
  show ?thesis by blast
qed

section \<open>Balance identity\<close>

text \<open>
  C2, as amended. When the tax-free and taxable initial balances and the tax-free
  contribution are not negative and the two accounts' rates of return are at least
  -1, every row of every run satisfies the balance identity: exactly for the
  tax-deferred account, and within epsilon for the tax-free and the taxable account.
\<close>

theorem balance_identity:
  assumes "0 \<le> tfsaInitialBalance d" "0 \<le> nonRegisteredInitialBalance d"
    and "0 \<le> tfsaContribute d" "- 1 \<le> tfsaRoi d" "- 1 \<le> nonRegisteredRoi d"
  shows "\<forall>r \<in> set (rows (runProjection d E N W)).
           rrspEnd r = rrspInit r + rrspC r - rrspW r \<and>
           \<bar>tfsaEnd r - (tfsaInit r + tfsaC r - tfsaW r)\<bar> \<le> EPS \<and>
           \<bar>nonrEnd r - (nonrInit r + nonrC r - nonrW r)\<bar> \<le> EPS"
proof
  fix r assume "r \<in> set (rows (runProjection d E N W))"
  then obtain t where "r = row_at d E W t"
    using runProjection_rows_map[of d E N W] by (metis (no_types, lifting) imageE list.set_map)
  moreover have "\<bar>tfsaEnd (row_at d E W t) -
      (tfsaInit (row_at d E W t) + tfsaC (row_at d E W t) - tfsaW (row_at d E W t))\<bar> \<le> EPS"
    unfolding row_at_closings(2)
    using row_at_raw[OF assms(1,2,4,5,3), of E W t] by (intro floor_eps_near) simp
  moreover have "\<bar>nonrEnd (row_at d E W t) -
      (nonrInit (row_at d E W t) + nonrC (row_at d E W t) - nonrW (row_at d E W t))\<bar> \<le> EPS"
    unfolding row_at_closings(3)
    using row_at_raw[OF assms(1,2,4,5,3), of E W t] by (intro floor_eps_near) simp
  ultimately show "rrspEnd r = rrspInit r + rrspC r - rrspW r \<and>
           \<bar>tfsaEnd r - (tfsaInit r + tfsaC r - tfsaW r)\<bar> \<le> EPS \<and>
           \<bar>nonrEnd r - (nonrInit r + nonrC r - nonrW r)\<bar> \<le> EPS"
    using row_at_closings(1)[of d E W t] by simp
qed

lemmas run_eval = runProjection_def proj_loop.simps init_state_def year_step_def year_row_def
  preRet_def postRet_def EPS_def Let_def

theorem balance_identity_witness:
  "0 \<le> tfsaInitialBalance scenario_inputs \<and> 0 \<le> nonRegisteredInitialBalance scenario_inputs \<and>
   0 \<le> tfsaContribute scenario_inputs \<and> - 1 \<le> tfsaRoi scenario_inputs \<and>
   - 1 \<le> nonRegisteredRoi scenario_inputs \<and>
   rows (runProjection scenario_inputs 50000 2 0) \<noteq> [] \<and>
   rrspEnd (last (rows (runProjection scenario_inputs 50000 2 0))) = 115250 \<and>
   tfsaEnd (last (rows (runProjection scenario_inputs 50000 2 0))) = 66850 \<and>
   \<bar>nonrEnd (last (rows (runProjection scenario_inputs 50000 2 0))) -
      (nonrInit (last (rows (runProjection scenario_inputs 50000 2 0))) +
       nonrC (last (rows (runProjection scenario_inputs 50000 2 0))) -
       nonrW (last (rows (runProjection scenario_inputs 50000 2 0))))\<bar> \<le> EPS"
proof -
  have hyps: "0 \<le> tfsaInitialBalance scenario_inputs" "0 \<le> nonRegisteredInitialBalance scenario_inputs"
    "0 \<le> tfsaContribute scenario_inputs" "- 1 \<le> tfsaRoi scenario_inputs"
    "- 1 \<le> nonRegisteredRoi scenario_inputs"
    by (simp_all add: scenario_inputs_def)
  have ne: "rows (runProjection scenario_inputs 50000 2 0) \<noteq> []"
    by (simp add: run_eval scenario_inputs_def)
  have vals: "rrspEnd (last (rows (runProjection scenario_inputs 50000 2 0))) = 115250"
    "tfsaEnd (last (rows (runProjection scenario_inputs 50000 2 0))) = 66850"
    by (simp_all add: run_eval scenario_inputs_def)
  from balance_identity[OF hyps, of 50000 2 0] ne
  have "\<bar>nonrEnd (last (rows (runProjection scenario_inputs 50000 2 0))) -
      (nonrInit (last (rows (runProjection scenario_inputs 50000 2 0))) +
       nonrC (last (rows (runProjection scenario_inputs 50000 2 0))) -
       nonrW (last (rows (runProjection scenario_inputs 50000 2 0))))\<bar> \<le> EPS"
    using last_in_set by blast
  with hyps ne vals show ?thesis by blast
qed

text \<open>
  The claim as stated fails when the taxable account starts below zero (the raw
  input \<open>-1000\<close>): the floor turns the closing balance into 0, which is 1000 away
  from opening plus contribution minus withdrawal.
\<close>

lemma toNum_minus_1000: "toNum (Text ''-1000'') = - 1000"
  by (simp add: toNum_def trim_def is_space_def is_digit_def js_Number_def unsigned_decimal_def
      digits_val_def digit_val_def Let_def)

theorem balance_identity_counterexample:
  "toNum (Text ''-1000'') = nonRegisteredInitialBalance overdrawn_inputs \<and>
   solveRrspWForHorizon overdrawn_inputs 1 = 0 \<and>
   map nonrInit (rows (runProjection overdrawn_inputs 0 1 0)) = [- 1000] \<and>
   map nonrC (rows (runProjection overdrawn_inputs 0 1 0)) = [0] \<and>
   map nonrW (rows (runProjection overdrawn_inputs 0 1 0)) = [0] \<and>
   map nonrEnd (rows (runProjection overdrawn_inputs 0 1 0)) = [0] \<and>
   \<not> \<bar>0 - (- 1000 + 0 - 0)\<bar> \<le> EPS"
  by (simp add: toNum_minus_1000 run_eval overdrawn_inputs_def zero_inputs_def
      solveRrspWForHorizon_def solveRRSPWithdrawal_exact_def simulate_exact_def)

lemma runProjection_row_ex:
  assumes "r \<in> set (rows (runProjection d E N W))"
  shows "\<exists>t. r = row_at d E W t"
  using assms runProjection_rows_map[of d E N W] by (metis (no_types, lifting) imageE list.set_map)

section \<open>The floor on closing balances\<close>

text \<open>
  C7, as amended. In every row of every run the tax-free and the taxable closing
  balance are each 0 or at least epsilon. The tax-deferred closing balance has no
  floor: it is opening plus contribution minus withdrawal, whatever its value.
\<close>

theorem closing_floor:
  "\<forall>r \<in> set (rows (runProjection d E N W)).
     (tfsaEnd r = 0 \<or> EPS \<le> tfsaEnd r) \<and>
     (nonrEnd r = 0 \<or> EPS \<le> nonrEnd r) \<and>
     rrspEnd r = rrspInit r + rrspC r - rrspW r"
proof
  fix r assume "r \<in> set (rows (runProjection d E N W))"
  then obtain t where r: "r = row_at d E W t"
    using runProjection_row_ex by blast
  show "(tfsaEnd r = 0 \<or> EPS \<le> tfsaEnd r) \<and>
     (nonrEnd r = 0 \<or> EPS \<le> nonrEnd r) \<and>
     rrspEnd r = rrspInit r + rrspC r - rrspW r"
    unfolding r using row_at_closings[of d E W t] floor_eps_cases by simp
qed

theorem closing_floor_witness:
  "rows (runProjection scenario_inputs 50000 2 0) \<noteq> [] \<and>
   tfsaEnd (last (rows (runProjection scenario_inputs 50000 2 0))) = 66850 \<and>
   EPS \<le> tfsaEnd (last (rows (runProjection scenario_inputs 50000 2 0))) \<and>
   EPS \<le> nonrEnd (last (rows (runProjection scenario_inputs 50000 2 0)))"
proof -
  have ne: "rows (runProjection scenario_inputs 50000 2 0) \<noteq> []"
    by (simp add: run_eval scenario_inputs_def)
  have v: "tfsaEnd (last (rows (runProjection scenario_inputs 50000 2 0))) = 66850"
    "nonrEnd (last (rows (runProjection scenario_inputs 50000 2 0))) \<noteq> 0"
    by (simp_all add: run_eval scenario_inputs_def)
  from closing_floor[of scenario_inputs 50000 2 0] ne
  have "(tfsaEnd (last (rows (runProjection scenario_inputs 50000 2 0))) = 0 \<or>
         EPS \<le> tfsaEnd (last (rows (runProjection scenario_inputs 50000 2 0)))) \<and>
        (nonrEnd (last (rows (runProjection scenario_inputs 50000 2 0))) = 0 \<or>
         EPS \<le> nonrEnd (last (rows (runProjection scenario_inputs 50000 2 0))))"
    using last_in_set by blast
  with ne v show ?thesis by simp
qed

text \<open>
  The claim as stated fails for the tax-deferred account: with an initial balance
  of 0.0000000005 and the withdrawal the solver returns for two years, the first
  row closes at that balance, which is below epsilon and not 0.
\<close>

theorem closing_floor_counterexample:
  "solveRrspWForHorizon speck_inputs 2 = 1 / 2000000000 \<and>
   map rrspEnd (rows (runProjection speck_inputs 0 2 (1 / 2000000000))) = [1 / 2000000000, 0] \<and>
   (1 / 2000000000 :: real) < EPS \<and> (1 / 2000000000 :: real) \<noteq> 0"
  by code_simp

section \<open>The closed taxable account\<close>

text \<open>
  C9, as amended. Once the taxable account closes a year at zero, the tax-free
  account's contribution is zero in every later year of the run: the suppressed
  target is the tax-free account's. The taxable account's own contribution is not
  suppressed.
\<close>

theorem tfsa_target_suppressed:
  "\<forall>j < length (rows (runProjection d E N W)). \<forall>i < j.
     nonrEnd (rows (runProjection d E N W) ! i) = 0 \<longrightarrow>
     tfsaC (rows (runProjection d E N W) ! j) = 0"
proof (intro allI impI)
  fix j i
  assume j: "j < length (rows (runProjection d E N W))" and i: "i < j"
    and z: "nonrEnd (rows (runProjection d E N W) ! i) = 0"
  have "nonrEnd (row_at d E W i) = 0"
    using z i j by (simp add: runProjection_nth)
  then have "nonrCleared (state_at d E W j)"
    using i nonrCleared_iff by blast
  then have tz: "target_at d E W j = 0" by (simp add: target_at_def)
  have "tfsaC (row_at d E W j) = 0"
  proof (cases "j < yearsToRetire d")
    case True
    from row_at_preRet[OF True, of E W] show ?thesis
      unfolding tz by (rule preRet_target_zero)
  next
    case False
    then have "yearsToRetire d \<le> j" by simp
    from row_at_postRet[OF this, of E W] show ?thesis
      unfolding tz by (rule postRet_target_zero)
  qed
  then show "tfsaC (rows (runProjection d E N W) ! j) = 0"
    using j by (simp add: runProjection_nth)
qed

theorem tfsa_target_suppressed_witness:
  "length (rows (runProjection saver_inputs 50 2 0)) = 2 \<and>
   nonrEnd (rows (runProjection saver_inputs 50 2 0) ! 0) = 0 \<and>
   tfsaC (rows (runProjection saver_inputs 50 2 0) ! 0) = 50 \<and>
   tfsaC (rows (runProjection saver_inputs 50 2 0) ! 1) = 0"
proof -
  have e: "length (rows (runProjection saver_inputs 50 2 0)) = 2"
    "nonrEnd (rows (runProjection saver_inputs 50 2 0) ! 0) = 0"
    "tfsaC (rows (runProjection saver_inputs 50 2 0) ! 0) = 50"
    by (simp_all add: run_eval saver_inputs_def zero_inputs_def)
  from tfsa_target_suppressed[of saver_inputs 50 2 0] e(1,2)
  have "tfsaC (rows (runProjection saver_inputs 50 2 0) ! 1) = 0"
    by (metis One_nat_def lessI one_less_numeral_iff semiring_norm(76))
  with e show ?thesis by simp
qed

text \<open>
  The claim as stated fails: the taxable account closes the first year at 0 and
  receives a contribution of 50 in the second.
\<close>

theorem tfsa_target_suppressed_counterexample:
  "solveRrspWForHorizon saver_inputs 2 = 0 \<and>
   map nonrEnd (rows (runProjection saver_inputs 50 2 0)) = [0, 50] \<and>
   map nonrC (rows (runProjection saver_inputs 50 2 0)) = [0, 50] \<and>
   map tfsaC (rows (runProjection saver_inputs 50 2 0)) = [50, 0]"
  by code_simp

text \<open>Growth of an account without flows, along \<open>row_at\<close>.\<close>

lemma floor_eps_id: "x = 0 \<or> EPS \<le> x \<Longrightarrow> floor_eps x = x"
  using EPS_pos by (auto simp add: floor_eps_def)

lemma growth_step:
  assumes "e = b * q ^ t" and "b * q ^ Suc t = 0 \<or> EPS \<le> b * q ^ Suc t"
  shows "floor_eps (e * q + 0 - 0) = b * q ^ Suc t"
proof -
  have eq: "e * q + 0 - 0 = b * q ^ Suc t" unfolding assms(1) by simp
  show ?thesis unfolding eq by (rule floor_eps_id[OF assms(2)])
qed

lemma rrsp_growth:
  assumes "\<forall>k\<le>t. rrspC (row_at d E W k) = 0 \<and> rrspW (row_at d E W k) = 0"
  shows "rrspEnd (row_at d E W t) = rrspInitialBalance d * (1 + rrspRoi d) ^ t"
  using assms
proof (induction t)
  case 0
  then show ?case by (simp add: row_at_closings(1) row_at_openings(1))
next
  case (Suc t)
  then have "rrspEnd (row_at d E W t) = rrspInitialBalance d * (1 + rrspRoi d) ^ t" by simp
  moreover have "rrspC (row_at d E W (Suc t)) = 0" "rrspW (row_at d E W (Suc t)) = 0"
    using Suc.prems by simp_all
  ultimately show ?case
    by (simp add: row_at_closings(1)[of d E W "Suc t"] row_at_openings(1)[of d E W "Suc t"])
qed

lemma tfsa_growth:
  assumes "\<forall>k\<le>t. tfsaC (row_at d E W k) = 0 \<and> tfsaW (row_at d E W k) = 0"
    and "\<forall>k\<le>t. tfsaInitialBalance d * (1 + tfsaRoi d) ^ k = 0 \<or>
                 EPS \<le> tfsaInitialBalance d * (1 + tfsaRoi d) ^ k"
  shows "tfsaEnd (row_at d E W t) = tfsaInitialBalance d * (1 + tfsaRoi d) ^ t"
  using assms
proof (induction t)
  case 0
  then have "tfsaInitialBalance d = 0 \<or> EPS \<le> tfsaInitialBalance d" by simp
  then show ?case using 0
    by (simp add: row_at_closings(2) row_at_openings(2) floor_eps_id)
next
  case (Suc t)
  then have ih: "tfsaEnd (row_at d E W t) = tfsaInitialBalance d * (1 + tfsaRoi d) ^ t" by simp
  have z: "tfsaC (row_at d E W (Suc t)) = 0" "tfsaW (row_at d E W (Suc t)) = 0"
    using Suc.prems by simp_all
  have "tfsaInitialBalance d * (1 + tfsaRoi d) ^ Suc t = 0 \<or>
        EPS \<le> tfsaInitialBalance d * (1 + tfsaRoi d) ^ Suc t"
    using Suc.prems(2) by blast
  then show ?case
    unfolding row_at_closings(2)[of d E W "Suc t"] z
    by (simp only: row_at_openings(2)[of d E W "Suc t"] nat.simps if_False diff_Suc_1
        growth_step[OF ih])
qed

lemma nonr_growth:
  assumes "\<forall>k\<le>t. nonrC (row_at d E W k) = 0 \<and> nonrW (row_at d E W k) = 0"
    and "\<forall>k\<le>t. nonRegisteredInitialBalance d * (1 + nonRegisteredRoi d) ^ k = 0 \<or>
                 EPS \<le> nonRegisteredInitialBalance d * (1 + nonRegisteredRoi d) ^ k"
  shows "nonrEnd (row_at d E W t) = nonRegisteredInitialBalance d * (1 + nonRegisteredRoi d) ^ t"
  using assms
proof (induction t)
  case 0
  then have "nonRegisteredInitialBalance d = 0 \<or> EPS \<le> nonRegisteredInitialBalance d" by simp
  then show ?case using 0
    by (simp add: row_at_closings(3) row_at_openings(3) floor_eps_id)
next
  case (Suc t)
  then have ih: "nonrEnd (row_at d E W t)
                 = nonRegisteredInitialBalance d * (1 + nonRegisteredRoi d) ^ t" by simp
  have z: "nonrC (row_at d E W (Suc t)) = 0" "nonrW (row_at d E W (Suc t)) = 0"
    using Suc.prems by simp_all
  have "nonRegisteredInitialBalance d * (1 + nonRegisteredRoi d) ^ Suc t = 0 \<or>
        EPS \<le> nonRegisteredInitialBalance d * (1 + nonRegisteredRoi d) ^ Suc t"
    using Suc.prems(2) by blast
  then show ?case
    unfolding row_at_closings(3)[of d E W "Suc t"] z
    by (simp only: row_at_openings(3)[of d E W "Suc t"] nat.simps if_False diff_Suc_1
        growth_step[OF ih])
qed

section \<open>Opening balances and growth without flows\<close>

text \<open>
  C4, as amended. In every run and for each account, the opening balance of year 0
  is the initial balance, and the opening balance of a later year is the previous
  row's closing balance times one plus the account's rate. An account without
  contribution and withdrawal up to year \<open>t\<close> closes year \<open>t\<close> at
  \<open>initial * (1 + rate) ^ t\<close>: always for the tax-deferred account, and for the
  tax-free and the taxable account when that product is 0 or at least epsilon in
  every year up to \<open>t\<close>, so that the floor never applies.
\<close>

theorem opening_chain_growth:
  "\<forall>t < length (rows (runProjection d E N W)).
     (let rs = rows (runProjection d E N W) in
      rrspInit (rs ! t) =
        (if t = 0 then rrspInitialBalance d else rrspEnd (rs ! (t - 1)) * (1 + rrspRoi d)) \<and>
      tfsaInit (rs ! t) =
        (if t = 0 then tfsaInitialBalance d else tfsaEnd (rs ! (t - 1)) * (1 + tfsaRoi d)) \<and>
      nonrInit (rs ! t) =
        (if t = 0 then nonRegisteredInitialBalance d
         else nonrEnd (rs ! (t - 1)) * (1 + nonRegisteredRoi d)) \<and>
      ((\<forall>k\<le>t. rrspC (rs ! k) = 0 \<and> rrspW (rs ! k) = 0) \<longrightarrow>
         rrspEnd (rs ! t) = rrspInitialBalance d * (1 + rrspRoi d) ^ t) \<and>
      ((\<forall>k\<le>t. tfsaC (rs ! k) = 0 \<and> tfsaW (rs ! k) = 0) \<and>
       (\<forall>k\<le>t. tfsaInitialBalance d * (1 + tfsaRoi d) ^ k = 0 \<or>
               EPS \<le> tfsaInitialBalance d * (1 + tfsaRoi d) ^ k) \<longrightarrow>
         tfsaEnd (rs ! t) = tfsaInitialBalance d * (1 + tfsaRoi d) ^ t) \<and>
      ((\<forall>k\<le>t. nonrC (rs ! k) = 0 \<and> nonrW (rs ! k) = 0) \<and>
       (\<forall>k\<le>t. nonRegisteredInitialBalance d * (1 + nonRegisteredRoi d) ^ k = 0 \<or>
               EPS \<le> nonRegisteredInitialBalance d * (1 + nonRegisteredRoi d) ^ k) \<longrightarrow>
         nonrEnd (rs ! t) = nonRegisteredInitialBalance d * (1 + nonRegisteredRoi d) ^ t))"
proof (intro allI impI)
  fix t assume t: "t < length (rows (runProjection d E N W))"
  define rs where "rs = rows (runProjection d E N W)"
  have nth: "rs ! k = row_at d E W k" if "k \<le> t" for k
    unfolding rs_def using that t by (intro runProjection_nth) simp
  have nth1: "rs ! (t - 1) = row_at d E W (t - 1)" by (rule nth) simp
  have nt: "rs ! t = row_at d E W t" by (rule nth) simp
  have o1: "rrspInit (rs ! t) =
        (if t = 0 then rrspInitialBalance d else rrspEnd (rs ! (t - 1)) * (1 + rrspRoi d))"
    unfolding nt nth1 by (rule row_at_openings(1))
  have o2: "tfsaInit (rs ! t) =
        (if t = 0 then tfsaInitialBalance d else tfsaEnd (rs ! (t - 1)) * (1 + tfsaRoi d))"
    unfolding nt nth1 by (rule row_at_openings(2))
  have o3: "nonrInit (rs ! t) =
        (if t = 0 then nonRegisteredInitialBalance d
         else nonrEnd (rs ! (t - 1)) * (1 + nonRegisteredRoi d))"
    unfolding nt nth1 by (rule row_at_openings(3))
  have g1: "rrspEnd (rs ! t) = rrspInitialBalance d * (1 + rrspRoi d) ^ t"
    if "\<forall>k\<le>t. rrspC (rs ! k) = 0 \<and> rrspW (rs ! k) = 0"
    unfolding nt using that nth by (intro rrsp_growth) simp
  have g2: "tfsaEnd (rs ! t) = tfsaInitialBalance d * (1 + tfsaRoi d) ^ t"
    if "\<forall>k\<le>t. tfsaC (rs ! k) = 0 \<and> tfsaW (rs ! k) = 0"
      and "\<forall>k\<le>t. tfsaInitialBalance d * (1 + tfsaRoi d) ^ k = 0 \<or>
               EPS \<le> tfsaInitialBalance d * (1 + tfsaRoi d) ^ k"
    unfolding nt using that nth by (intro tfsa_growth) simp_all
  have g3: "nonrEnd (rs ! t) = nonRegisteredInitialBalance d * (1 + nonRegisteredRoi d) ^ t"
    if "\<forall>k\<le>t. nonrC (rs ! k) = 0 \<and> nonrW (rs ! k) = 0"
      and "\<forall>k\<le>t. nonRegisteredInitialBalance d * (1 + nonRegisteredRoi d) ^ k = 0 \<or>
               EPS \<le> nonRegisteredInitialBalance d * (1 + nonRegisteredRoi d) ^ k"
    unfolding nt using that nth by (intro nonr_growth) simp_all
  show "(let rs = rows (runProjection d E N W) in
      rrspInit (rs ! t) =
        (if t = 0 then rrspInitialBalance d else rrspEnd (rs ! (t - 1)) * (1 + rrspRoi d)) \<and>
      tfsaInit (rs ! t) =
        (if t = 0 then tfsaInitialBalance d else tfsaEnd (rs ! (t - 1)) * (1 + tfsaRoi d)) \<and>
      nonrInit (rs ! t) =
        (if t = 0 then nonRegisteredInitialBalance d
         else nonrEnd (rs ! (t - 1)) * (1 + nonRegisteredRoi d)) \<and>
      ((\<forall>k\<le>t. rrspC (rs ! k) = 0 \<and> rrspW (rs ! k) = 0) \<longrightarrow>
         rrspEnd (rs ! t) = rrspInitialBalance d * (1 + rrspRoi d) ^ t) \<and>
      ((\<forall>k\<le>t. tfsaC (rs ! k) = 0 \<and> tfsaW (rs ! k) = 0) \<and>
       (\<forall>k\<le>t. tfsaInitialBalance d * (1 + tfsaRoi d) ^ k = 0 \<or>
               EPS \<le> tfsaInitialBalance d * (1 + tfsaRoi d) ^ k) \<longrightarrow>
         tfsaEnd (rs ! t) = tfsaInitialBalance d * (1 + tfsaRoi d) ^ t) \<and>
      ((\<forall>k\<le>t. nonrC (rs ! k) = 0 \<and> nonrW (rs ! k) = 0) \<and>
       (\<forall>k\<le>t. nonRegisteredInitialBalance d * (1 + nonRegisteredRoi d) ^ k = 0 \<or>
               EPS \<le> nonRegisteredInitialBalance d * (1 + nonRegisteredRoi d) ^ k) \<longrightarrow>
         nonrEnd (rs ! t) = nonRegisteredInitialBalance d * (1 + nonRegisteredRoi d) ^ t))"
    unfolding Let_def rs_def[symmetric]
    using o1 o2 o3 g1 g2 g3 by blast
qed

lemma all_le_1: "(\<forall>k\<le>(1::nat). P k) = (P 0 \<and> P 1)"
  by (auto simp add: le_Suc_eq)

theorem opening_chain_growth_witness:
  "length (rows (runProjection idle_inputs 0 2 0)) = 2 \<and>
   map tfsaC (rows (runProjection idle_inputs 0 2 0)) = [0, 0] \<and>
   map tfsaW (rows (runProjection idle_inputs 0 2 0)) = [0, 0] \<and>
   EPS \<le> tfsaInitialBalance idle_inputs * (1 + tfsaRoi idle_inputs) ^ 0 \<and>
   EPS \<le> tfsaInitialBalance idle_inputs * (1 + tfsaRoi idle_inputs) ^ 1 \<and>
   tfsaInit (rows (runProjection idle_inputs 0 2 0) ! 1) =
     tfsaEnd (rows (runProjection idle_inputs 0 2 0) ! 0) * (1 + tfsaRoi idle_inputs) \<and>
   tfsaEnd (rows (runProjection idle_inputs 0 2 0) ! 1) =
     tfsaInitialBalance idle_inputs * (1 + tfsaRoi idle_inputs) ^ 1 \<and>
   tfsaEnd (rows (runProjection idle_inputs 0 2 0) ! 1) = 2100"
proof -
  have e: "length (rows (runProjection idle_inputs 0 2 0)) = 2"
    "map tfsaC (rows (runProjection idle_inputs 0 2 0)) = [0, 0]"
    "map tfsaW (rows (runProjection idle_inputs 0 2 0)) = [0, 0]"
    by code_simp+
  have b: "EPS \<le> tfsaInitialBalance idle_inputs * (1 + tfsaRoi idle_inputs) ^ 0"
    "EPS \<le> tfsaInitialBalance idle_inputs * (1 + tfsaRoi idle_inputs) ^ 1"
    "tfsaInitialBalance idle_inputs * (1 + tfsaRoi idle_inputs) ^ 1 = 2100"
    by (simp_all add: idle_inputs_def zero_inputs_def EPS_def)
  have f: "\<forall>k\<le>1. tfsaC (rows (runProjection idle_inputs 0 2 0) ! k) = 0 \<and>
               tfsaW (rows (runProjection idle_inputs 0 2 0) ! k) = 0"
    unfolding all_le_1 using e(2,3) by (metis nth_Cons_0 nth_Cons_Suc One_nat_def nth_map e(1) zero_less_numeral one_less_numeral_iff semiring_norm(76))
  have g: "\<forall>k\<le>1. tfsaInitialBalance idle_inputs * (1 + tfsaRoi idle_inputs) ^ k = 0 \<or>
               EPS \<le> tfsaInitialBalance idle_inputs * (1 + tfsaRoi idle_inputs) ^ k"
    unfolding all_le_1 using b(1,2) by simp
  have "(1::nat) < length (rows (runProjection idle_inputs 0 2 0))" using e(1) by simp
  from opening_chain_growth[of idle_inputs 0 2 0, rule_format, OF this, unfolded Let_def] f g
  have "tfsaInit (rows (runProjection idle_inputs 0 2 0) ! 1) =
          tfsaEnd (rows (runProjection idle_inputs 0 2 0) ! 0) * (1 + tfsaRoi idle_inputs)"
       "tfsaEnd (rows (runProjection idle_inputs 0 2 0) ! 1) =
          tfsaInitialBalance idle_inputs * (1 + tfsaRoi idle_inputs) ^ 1"
    by simp_all
  with e b show ?thesis by simp
qed

text \<open>
  The claim as stated fails for an account that starts below epsilon: the tax-free
  account has no contribution and no withdrawal in 32 years at a rate of 100\%,
  its closing balance is 0 from the first year on, and
  \<open>initial * (1 + rate) ^ 31\<close> exceeds 1.
\<close>

theorem opening_chain_growth_counterexample:
  "solveRrspWForHorizon dust_inputs 32 = 0 \<and>
   length (rows (runProjection dust_inputs 0 32 0)) = 32 \<and>
   list_all (\<lambda>r. tfsaC r = 0 \<and> tfsaW r = 0 \<and> tfsaEnd r = 0)
     (rows (runProjection dust_inputs 0 32 0)) \<and>
   1 < tfsaInitialBalance dust_inputs * (1 + tfsaRoi dust_inputs) ^ 31"
proof -
  have "solveRrspWForHorizon dust_inputs 32 = 0"
    by (simp add: solveRrspWForHorizon_def solveRRSPWithdrawal_exact_def simulate_exact_def upt_rec
        dust_inputs_def zero_inputs_def)
  moreover have "length (rows (runProjection dust_inputs 0 32 0)) = 32 \<and>
      list_all (\<lambda>r. tfsaC r = 0 \<and> tfsaW r = 0 \<and> tfsaEnd r = 0)
        (rows (runProjection dust_inputs 0 32 0))"
    by (simp add: run_eval dust_inputs_def zero_inputs_def)
  moreover have "1 < tfsaInitialBalance dust_inputs * (1 + tfsaRoi dust_inputs) ^ 31"
    by (simp add: dust_inputs_def zero_inputs_def)
  ultimately show ?thesis by blast
qed

section \<open>The retirement ladder\<close>

lemma postRet_cases:
  assumes "postRet tt e w ti ni dep = (tc, tw, nc, nw, dep')"
  shows "(e + tt - w \<le> 0 \<longrightarrow>
            nc = - (e + tt - w) \<and> nw = 0 \<and> tc = tt \<and> tw = 0 \<and> dep' = dep) \<and>
         (0 < e + tt - w \<and> e + tt - w \<le> ni + EPS \<longrightarrow>
            nw = e + tt - w \<and> nc = 0 \<and> tc = tt \<and> tw = 0 \<and> dep' = dep) \<and>
         (0 < e + tt - w \<and> ni + EPS < e + tt - w \<longrightarrow>
            nw = ni \<and> nc = 0 \<and>
            (e \<le> w + ni + EPS \<longrightarrow>
               tw = 0 \<and> tc = min tt (max 0 (ni + w - e)) \<and> dep' = dep) \<and>
            (w + ni + EPS < e \<longrightarrow>
               tc = 0 \<and> tw = min ti (e - w - ni) \<and>
               dep' = (EPS < e - w - ni - tw \<or> dep)))"
  using assms EPS_pos
  by (auto simp add: postRet_def Let_def split: if_splits)

text \<open>
  C3, as amended. In a retirement year (income 0) the need is the expense plus the
  tax-free contribution target (0 once the taxable account has closed a year at
  zero, the requested contribution before) minus the fixed withdrawal. If the need
  is not positive, its negation is contributed to the taxable account. A positive
  need is paid by the taxable account when its opening balance plus epsilon covers
  it. Otherwise the taxable account pays its whole opening balance; the tax-free
  contribution is cut to what is left of withdrawal plus taxable balance after the
  expense, and when these do not cover the expense it is zero and the tax-free
  account pays the gap up to its opening balance. A gap left after that, above
  epsilon, sets the depletion flag of the run.
\<close>

theorem retirement_ladder:
  "\<forall>t < length (rows (runProjection d E N W)). yearsToRetire d \<le> t \<longrightarrow>
     (let r = runProjection d E N W;
          x = rows r ! t;
          target = (if \<exists>i<t. nonrEnd (rows r ! i) = 0 then 0 else tfsaContribute d);
          need = expense x + target - W
      in income x = 0 \<and> rrspW x = W \<and>
         (need \<le> 0 \<longrightarrow>
            nonrC x = - need \<and> nonrW x = 0 \<and> tfsaC x = target \<and> tfsaW x = 0) \<and>
         (0 < need \<and> need \<le> nonrInit x + EPS \<longrightarrow>
            nonrW x = need \<and> nonrC x = 0 \<and> tfsaC x = target \<and> tfsaW x = 0) \<and>
         (0 < need \<and> nonrInit x + EPS < need \<longrightarrow>
            nonrW x = nonrInit x \<and> nonrC x = 0 \<and>
            (expense x \<le> W + nonrInit x + EPS \<longrightarrow>
               tfsaW x = 0 \<and> tfsaC x = min target (max 0 (nonrInit x + W - expense x))) \<and>
            (W + nonrInit x + EPS < expense x \<longrightarrow>
               tfsaC x = 0 \<and> tfsaW x = min (tfsaInit x) (expense x - W - nonrInit x) \<and>
               (EPS < expense x - W - nonrInit x - tfsaW x \<longrightarrow> depletedEarly r))))"
proof (intro allI impI)
  fix t assume t: "t < length (rows (runProjection d E N W))" and ret: "yearsToRetire d \<le> t"
  define x where "x = rows (runProjection d E N W) ! t"
  define target where
    "target = (if \<exists>i<t. nonrEnd (rows (runProjection d E N W) ! i) = 0 then 0 else tfsaContribute d)"
  have x: "x = row_at d E W t" unfolding x_def using t by (rule runProjection_nth)
  have "(\<exists>i<t. nonrEnd (rows (runProjection d E N W) ! i) = 0) = (\<exists>i<t. nonrEnd (row_at d E W i) = 0)"
    using t by (auto simp add: runProjection_nth)
  then have target: "target = target_at d E W t"
    unfolding target_def target_at_def nonrCleared_iff by simp
  have sc: "income x = 0" "rrspW x = W"
    unfolding x using ret by (simp_all add: row_at_scalars)
  note c = postRet_cases[OF row_at_postRet[OF ret, of E W], folded x target]
  have flag: "depletedEarly (runProjection d E N W)"
    if "depletedEarly (state_at d E W (Suc t))"
    using runProjection_flag[OF t that] .
  have "income x = 0 \<and> rrspW x = W \<and>
         (expense x + target - W \<le> 0 \<longrightarrow>
            nonrC x = - (expense x + target - W) \<and> nonrW x = 0 \<and> tfsaC x = target \<and> tfsaW x = 0) \<and>
         (0 < expense x + target - W \<and> expense x + target - W \<le> nonrInit x + EPS \<longrightarrow>
            nonrW x = expense x + target - W \<and> nonrC x = 0 \<and> tfsaC x = target \<and> tfsaW x = 0) \<and>
         (0 < expense x + target - W \<and> nonrInit x + EPS < expense x + target - W \<longrightarrow>
            nonrW x = nonrInit x \<and> nonrC x = 0 \<and>
            (expense x \<le> W + nonrInit x + EPS \<longrightarrow>
               tfsaW x = 0 \<and> tfsaC x = min target (max 0 (nonrInit x + W - expense x))) \<and>
            (W + nonrInit x + EPS < expense x \<longrightarrow>
               tfsaC x = 0 \<and> tfsaW x = min (tfsaInit x) (expense x - W - nonrInit x) \<and>
               (EPS < expense x - W - nonrInit x - tfsaW x \<longrightarrow>
                  depletedEarly (runProjection d E N W))))"
    using sc c flag by blast
  then show "(let r = runProjection d E N W;
          x = rows r ! t;
          target = (if \<exists>i<t. nonrEnd (rows r ! i) = 0 then 0 else tfsaContribute d);
          need = expense x + target - W
      in income x = 0 \<and> rrspW x = W \<and>
         (need \<le> 0 \<longrightarrow>
            nonrC x = - need \<and> nonrW x = 0 \<and> tfsaC x = target \<and> tfsaW x = 0) \<and>
         (0 < need \<and> need \<le> nonrInit x + EPS \<longrightarrow>
            nonrW x = need \<and> nonrC x = 0 \<and> tfsaC x = target \<and> tfsaW x = 0) \<and>
         (0 < need \<and> nonrInit x + EPS < need \<longrightarrow>
            nonrW x = nonrInit x \<and> nonrC x = 0 \<and>
            (expense x \<le> W + nonrInit x + EPS \<longrightarrow>
               tfsaW x = 0 \<and> tfsaC x = min target (max 0 (nonrInit x + W - expense x))) \<and>
            (W + nonrInit x + EPS < expense x \<longrightarrow>
               tfsaC x = 0 \<and> tfsaW x = min (tfsaInit x) (expense x - W - nonrInit x) \<and>
               (EPS < expense x - W - nonrInit x - tfsaW x \<longrightarrow> depletedEarly r))))"
    unfolding Let_def x_def target_def .
qed

theorem retirement_ladder_witness:
  "length (rows (runProjection short_inputs 100 1 0)) = 1 \<and>
   yearsToRetire short_inputs \<le> 0 \<and>
   expense (rows (runProjection short_inputs 100 1 0) ! 0) = 100 \<and>
   nonrInit (rows (runProjection short_inputs 100 1 0) ! 0) = 30 \<and>
   tfsaInit (rows (runProjection short_inputs 100 1 0) ! 0) = 20 \<and>
   nonrW (rows (runProjection short_inputs 100 1 0) ! 0) = 30 \<and>
   tfsaC (rows (runProjection short_inputs 100 1 0) ! 0) = 0 \<and>
   tfsaW (rows (runProjection short_inputs 100 1 0) ! 0) = 20 \<and>
   depletedEarly (runProjection short_inputs 100 1 0)"
proof -
  define r where "r = runProjection short_inputs 100 1 0"
  have e: "length (rows r) = 1"
    "yearsToRetire short_inputs \<le> 0"
    "expense (rows r ! 0) = 100"
    "nonrInit (rows r ! 0) = 30"
    "tfsaInit (rows r ! 0) = 20"
    "tfsaContribute short_inputs = 0"
    unfolding r_def by code_simp+
  have "0 < length (rows r)" using e(1) by simp
  from retirement_ladder[of short_inputs 100 1 0, folded r_def, rule_format, OF this e(2),
      unfolded Let_def]
  have "nonrW (rows r ! 0) = 30 \<and> tfsaC (rows r ! 0) = 0 \<and> tfsaW (rows r ! 0) = 20 \<and>
        depletedEarly r"
    by (simp add: e EPS_def)
  with e show ?thesis unfolding r_def by simp
qed

text \<open>
  The claim as stated fails when a tax-free contribution is requested: the fixed
  withdrawal of 150 exceeds the expense of 100 by 50, and with a tax-free
  contribution of 100 the taxable account receives nothing and pays 50.
\<close>

theorem retirement_ladder_counterexample:
  "solveRrspWForHorizon surplus_inputs 1 = 150 \<and>
   map income (rows (runProjection surplus_inputs 100 1 150)) = [0] \<and>
   map expense (rows (runProjection surplus_inputs 100 1 150)) = [100] \<and>
   map rrspW (rows (runProjection surplus_inputs 100 1 150)) = [150] \<and>
   map nonrC (rows (runProjection surplus_inputs 100 1 150)) = [0] \<and>
   map nonrW (rows (runProjection surplus_inputs 100 1 150)) = [50] \<and>
   map tfsaC (rows (runProjection surplus_inputs 100 1 150)) = [100]"
  by code_simp

section \<open>The withdrawal solver\<close>

lemma simulate_exact_fold:
  "simulate_exact R N S c r W = fold (rrsp_step R S c r W) [0..<N] S"
  unfolding simulate_exact_def rrsp_step_def Let_def ..

lemma simulate_exact_0: "simulate_exact R 0 S c r W = S"
  by (simp add: simulate_exact_def)

lemma simulate_exact_Suc:
  "simulate_exact R (Suc N) S c r W = rrsp_step R S c r W N (simulate_exact R N S c r W)"
  by (simp add: simulate_exact_fold)

lemma simulate_exact_affine:
  "simulate_exact R N S c r W = simulate_exact R N S c r 0 - W * (simulate_exact R N S c r 0 - simulate_exact R N S c r 1)"
proof (induction N)
  case 0
  then show ?case by (simp add: simulate_exact_0)
next
  case (Suc N)
  show ?case
    unfolding simulate_exact_Suc
    by (subst Suc.IH) (simp add: rrsp_step_def algebra_simps)
qed

lemma simulate_exact_root:
  assumes "0 < simulate_exact R N S c r 0 - simulate_exact R N S c r 1"
  shows "simulate_exact R N S c r
           (simulate_exact R N S c r 0 / (simulate_exact R N S c r 0 - simulate_exact R N S c r 1)) = 0"
  using assms by (subst simulate_exact_affine) simp

lemma rrspEnd_row_at:
  "rrspEnd (row_at d E W t) =
     simulate_exact (yearsToRetire d) (Suc t) (rrspInitialBalance d) (rrspContribute d) (rrspRoi d) W"
proof (induction t)
  case 0
  show ?case
    by (simp add: simulate_exact_Suc simulate_exact_0 rrsp_step_def row_at_closings(1) row_at_openings(1)
        row_at_scalars)
next
  case (Suc t)
  show ?case
    unfolding simulate_exact_Suc[of _ "Suc t"] Suc.IH[symmetric]
    by (simp add: rrsp_step_def row_at_closings(1)[of d E W "Suc t"]
        row_at_openings(1)[of d E W "Suc t"] row_at_scalars)
qed






















section \<open>The maximum-spending solver\<close>

lemma expand_hi_returns_aux:
  "1000000000 \<le> hi * 2 ^ n \<Longrightarrow> 0 < hi \<Longrightarrow>
   \<exists>hi'. expand_hi d N W hi = Some hi' \<and> hi \<le> hi' \<and>
         (1000000000 \<le> hi' \<or> depletedEarly (runProjection d hi' N W))"
proof (induction n arbitrary: hi)
  case 0
  then show ?case by (subst expand_hi.simps) simp
next
  case (Suc n)
  show ?case
  proof (cases "\<not> depletedEarly (runProjection d hi N W) \<and> hi < 1000000000")
    case True
    have "1000000000 \<le> (hi * 2) * 2 ^ n" using Suc.prems(1) by (simp add: mult.assoc)
    moreover have "0 < hi * 2" using Suc.prems(2) by simp
    ultimately obtain hi' where "expand_hi d N W (hi * 2) = Some hi'" "hi * 2 \<le> hi'"
        "1000000000 \<le> hi' \<or> depletedEarly (runProjection d hi' N W)"
      using Suc.IH by blast
    moreover have "expand_hi d N W hi = expand_hi d N W (hi * 2)"
      using True by (subst expand_hi.simps) simp
    ultimately show ?thesis using Suc.prems(2) by (intro exI[of _ hi']) simp
  next
    case False
    then have "expand_hi d N W hi = Some hi" by (subst expand_hi.simps) auto
    then show ?thesis using False by auto
  qed
qed

lemma expand_hi_returns:
  assumes "1000 \<le> hi"
  shows "\<exists>hi'. expand_hi d N W hi = Some hi' \<and> hi \<le> hi' \<and>
         (1000000000 \<le> hi' \<or> depletedEarly (runProjection d hi' N W))"
proof -
  have "(1000000000::real) \<le> 1000 * 2 ^ 20" by simp
  also have "\<dots> \<le> hi * 2 ^ 20" using assms by simp
  finally have "1000000000 \<le> hi * 2 ^ 20" .
  moreover have "0 < hi" using assms by simp
  ultimately show ?thesis by (rule expand_hi_returns_aux)
qed

lemma bracket_step:
  assumes "bracket d N W hi0 n p" "0 \<le> hi0"
  shows "bracket d N W hi0 (Suc n) (bisect_step d N W p)"
proof -
  obtain lo hi where p: "p = (lo, hi)" by (cases p)
  from assms(1) have b: "0 \<le> lo" "lo \<le> hi" "hi \<le> hi0" "hi - lo = hi0 / 2 ^ n"
    "lo = 0 \<or> \<not> depletedEarly (runProjection d lo N W)"
    "hi = hi0 \<or> depletedEarly (runProjection d hi N W)"
    unfolding bracket_def p by simp_all
  define mid where "mid = (lo + hi) / 2"
  have m: "lo \<le> mid" "mid \<le> hi" "hi - mid = hi0 / 2 ^ Suc n" "mid - lo = hi0 / 2 ^ Suc n"
    using b(2,4) unfolding mid_def by (simp_all add: field_simps)
  show ?thesis
  proof (cases "depletedEarly (runProjection d mid N W)")
    case True
    then have "bisect_step d N W p = (lo, mid)"
      unfolding bisect_step_def p mid_def by (simp add: Let_def)
    then show ?thesis
      unfolding bracket_def using b m True by simp
  next
    case False
    then have "bisect_step d N W p = (mid, hi)"
      unfolding bisect_step_def p mid_def by (simp add: Let_def)
    then show ?thesis
      unfolding bracket_def using b m False by simp
  qed
qed

lemma bracket_fold:
  assumes "0 \<le> hi0"
  shows "bracket d N W hi0 n (fold (\<lambda>i. bisect_step d N W) [0..<n] (0, hi0))"
proof (induction n)
  case 0
  then show ?case using assms by (simp add: bracket_def)
next
  case (Suc n)
  then show ?case using bracket_step[OF _ assms] by simp
qed

lemma bisect_bracket:
  assumes "0 \<le> hi0"
  shows "bracket d N W hi0 50 (bisect d N W hi0)"
  unfolding bisect_def using bracket_fold[OF assms, of d N W 50] by simp

lemma Math_round_near: "\<bar>real_of_int (Math_round x) - x\<bar> \<le> 1 / 2"
  unfolding Math_round_def by linarith

text \<open>
  C5. The claim is about the solved maximum spending. The handler never produces
  one: for every request in solve-maximum-spending mode the bracket expansion and
  the bisection return, and the assignment of the rounded lower bound throws.
\<close>

theorem solveExpenses_throws:
  "solveExpenses d = Some (Inl ReferenceError)"
proof -
  define N where "N = nat (max 1 (max 1 (yearsToPlanInput d)))"
  define W where "W = solveRrspWForHorizon d N"
  define hi0 where "hi0 = max 1000
      ((rrspInitialBalance d + tfsaInitialBalance d + nonRegisteredInitialBalance d) * 2)"
  have "1000 \<le> hi0" unfolding hi0_def by simp
  from expand_hi_returns[OF this, of d N W] obtain hi where
    "expand_hi d N W hi0 = Some hi" by blast
  then show ?thesis
    unfolding solveExpenses_def Let_def N_def[symmetric] W_def[symmetric] hi0_def[symmetric]
    by (simp add: assign_before_declaration_def)
qed

section \<open>The maximum-horizon solver\<close>

lemma yearsSurvived_bounds: "1 \<le> N \<Longrightarrow> 1 \<le> yearsSurvived d N \<and> yearsSurvived d N \<le> N"
proof -
  assume N: "1 \<le> N"
  obtain k where k: "k \<le> N" "0 < N \<longrightarrow> 0 < k"
      "proj_loop d (expensesAnnual d) N (solveRrspWForHorizon d N) 0 (init_state d)
       = state_at d (expensesAnnual d) (solveRrspWForHorizon d N) k"
    using stop_year_ex[of N d "expensesAnnual d" "solveRrspWForHorizon d N"] by blast
  have "yearsSurvived d N = k"
    unfolding yearsSurvived_def simulateGivenN_def Let_def
    by (simp add: runProjection_rows k(3) length_rows_state_at)
  then show ?thesis using k(1,2) N by simp
qed

lemma candidate_pos: "1 \<le> candidate d k"
  unfolding candidate_def
proof (induction k)
  case 0
  then show ?case by simp
next
  case (Suc k)
  then show ?case using yearsSurvived_bounds[of "(yearsSurvived d ^^ k) 120" d] by simp
qed

lemma fixpoint_loop_char:
  assumes "25 - iter = n" "iter \<le> 25" "1 \<le> N"
  shows "(\<exists>j<n. yearsSurvived d ((yearsSurvived d ^^ j) N) = (yearsSurvived d ^^ j) N \<and>
            (\<forall>i<j. yearsSurvived d ((yearsSurvived d ^^ i) N) \<noteq> (yearsSurvived d ^^ i) N) \<and>
            fixpoint_loop d iter N =
              ((yearsSurvived d ^^ j) N,
               Some ((yearsSurvived d ^^ j) N, solveRrspWForHorizon d ((yearsSurvived d ^^ j) N)))) \<or>
         ((\<forall>i<n. yearsSurvived d ((yearsSurvived d ^^ i) N) \<noteq> (yearsSurvived d ^^ i) N) \<and>
            fixpoint_loop d iter N = ((yearsSurvived d ^^ n) N, None))"
  using assms
proof (induction n arbitrary: iter N)
  case 0
  then have "\<not> iter < 25" by simp
  then have "fixpoint_loop d iter N = (N, None)"
    by (subst fixpoint_loop.simps) simp
  then show ?case by simp
next
  case (Suc n)
  then have it: "iter < 25" by simp
  show ?case
  proof (cases "yearsSurvived d N = N")
    case True
    then have "fixpoint_loop d iter N = (N, Some (N, solveRrspWForHorizon d N))"
      using it by (subst fixpoint_loop.simps) (simp add: yearsSurvived_def Let_def)
    then show ?thesis using True by (intro disjI1 exI[of _ 0]) simp
  next
    case False
    let ?N' = "yearsSurvived d N"
    have pos: "1 \<le> ?N'" using yearsSurvived_bounds[OF Suc.prems(3)] by simp
    have step: "fixpoint_loop d iter N = fixpoint_loop d (iter + 1) ?N'"
      using it False pos by (subst fixpoint_loop.simps) (simp add: yearsSurvived_def Let_def)
    have "25 - (iter + 1) = n" "iter + 1 \<le> 25" using Suc.prems it by simp_all
    from Suc.IH[OF this pos] show ?thesis
    proof
      assume "\<exists>j<n. yearsSurvived d ((yearsSurvived d ^^ j) ?N') = (yearsSurvived d ^^ j) ?N' \<and>
            (\<forall>i<j. yearsSurvived d ((yearsSurvived d ^^ i) ?N') \<noteq> (yearsSurvived d ^^ i) ?N') \<and>
            fixpoint_loop d (iter + 1) ?N' =
              ((yearsSurvived d ^^ j) ?N',
               Some ((yearsSurvived d ^^ j) ?N', solveRrspWForHorizon d ((yearsSurvived d ^^ j) ?N')))"
      then obtain j where j: "j < n"
        "yearsSurvived d ((yearsSurvived d ^^ j) ?N') = (yearsSurvived d ^^ j) ?N'"
        "\<forall>i<j. yearsSurvived d ((yearsSurvived d ^^ i) ?N') \<noteq> (yearsSurvived d ^^ i) ?N'"
        "fixpoint_loop d (iter + 1) ?N' =
              ((yearsSurvived d ^^ j) ?N',
               Some ((yearsSurvived d ^^ j) ?N', solveRrspWForHorizon d ((yearsSurvived d ^^ j) ?N')))"
        by blast
      have sh: "(yearsSurvived d ^^ i) ?N' = (yearsSurvived d ^^ Suc i) N" for i
        by (simp add: funpow_swap1)
      have "\<forall>i<Suc j. yearsSurvived d ((yearsSurvived d ^^ i) N) \<noteq> (yearsSurvived d ^^ i) N"
      proof (intro allI impI)
        fix i assume "i < Suc j"
        show "yearsSurvived d ((yearsSurvived d ^^ i) N) \<noteq> (yearsSurvived d ^^ i) N"
        proof (cases i)
          case 0
          then show ?thesis using False by simp
        next
          case (Suc i')
          then have "i' < j" using \<open>i < Suc j\<close> by simp
          then show ?thesis using j(3) unfolding sh Suc by blast
        qed
      qed
      then show ?thesis
        using j(1,2,4) unfolding sh step
        by (intro disjI1 exI[of _ "Suc j"]) simp
    next
      assume a: "(\<forall>i<n. yearsSurvived d ((yearsSurvived d ^^ i) ?N') \<noteq> (yearsSurvived d ^^ i) ?N') \<and>
            fixpoint_loop d (iter + 1) ?N' = ((yearsSurvived d ^^ n) ?N', None)"
      have sh: "(yearsSurvived d ^^ i) ?N' = (yearsSurvived d ^^ Suc i) N" for i
        by (simp add: funpow_swap1)
      have "\<forall>i<Suc n. yearsSurvived d ((yearsSurvived d ^^ i) N) \<noteq> (yearsSurvived d ^^ i) N"
      proof (intro allI impI)
        fix i assume "i < Suc n"
        show "yearsSurvived d ((yearsSurvived d ^^ i) N) \<noteq> (yearsSurvived d ^^ i) N"
        proof (cases i)
          case 0
          then show ?thesis using False by simp
        next
          case (Suc i')
          then have "i' < n" using \<open>i < Suc n\<close> by simp
          then show ?thesis using a unfolding sh Suc by blast
        qed
      qed
      then show ?thesis
        using a unfolding sh step by (intro disjI2) simp
    qed
  qed
qed

lemma candidate_le: "candidate d k \<le> 120"
  unfolding candidate_def
proof (induction k)
  case 0
  then show ?case by simp
next
  case (Suc k)
  have "1 \<le> (yearsSurvived d ^^ k) 120" using candidate_pos[of d k] by (simp add: candidate_def)
  from yearsSurvived_bounds[OF this, of d] Suc show ?case by simp
qed

lemma findMaxYears_stable:
  assumes "\<exists>k<25. yearsSurvived d (candidate d k) = candidate d k"
  shows "\<exists>j<25. yearsSurvived d (candidate d j) = candidate d j \<and>
           findMaxYears d = (candidate d j, solveRrspWForHorizon d (candidate d j))"
proof -
  from fixpoint_loop_char[of 0 25 120 d]
  consider (stable) j where "j < 25" "yearsSurvived d (candidate d j) = candidate d j"
      "fixpoint_loop d 0 120 = (candidate d j, Some (candidate d j, solveRrspWForHorizon d (candidate d j)))"
    | (none) "\<forall>i<25. yearsSurvived d (candidate d i) \<noteq> candidate d i"
    unfolding candidate_def by auto
  then show ?thesis
  proof cases
    case stable
    then show ?thesis by (intro exI[of _ j]) (simp add: findMaxYears_def)
  next
    case none
    then show ?thesis using assms by blast
  qed
qed

lemma findMaxYears_budget:
  assumes "\<forall>k<25. yearsSurvived d (candidate d k) \<noteq> candidate d k"
  shows "findMaxYears d = (candidate d 25, solveRrspWForHorizon d (candidate d 25))"
proof -
  from fixpoint_loop_char[of 0 25 120 d]
  consider (stable) j where "j < 25" "yearsSurvived d (candidate d j) = candidate d j"
    | (none) "fixpoint_loop d 0 120 = (candidate d 25, None)"
    unfolding candidate_def by auto
  then show ?thesis
  proof cases
    case stable
    then show ?thesis using assms by blast
  next
    case none
    have "max 1 (candidate d 25) = candidate d 25" using candidate_pos[of d 25] by simp
    then show ?thesis by (simp add: findMaxYears_def none Let_def)
  qed
qed

text \<open>
  C6, as amended. The horizon the Maximum-Horizon Solver returns lies between 1
  and the cap of 120. When one of the 25 candidates it tries has a survived count
  equal to itself, the returned horizon is self-consistent: resolving the
  withdrawal for it and simulating again produces exactly that many rows, and the
  returned withdrawal is the one resolved for it. When none has, the returned
  horizon is the survived count of the last candidate, for which nothing is
  checked.
\<close>

theorem findMaxYears_fixed_point:
  "(let N = fst (findMaxYears d) in
      1 \<le> N \<and> N \<le> 120 \<and>
      ((\<exists>k<25. yearsSurvived d (candidate d k) = candidate d k) \<longrightarrow>
         fst (simulateGivenN d N (expensesAnnual d)) = N \<and>
         snd (findMaxYears d) = solveRrspWForHorizon d N) \<and>
      ((\<forall>k<25. yearsSurvived d (candidate d k) \<noteq> candidate d k) \<longrightarrow>
         N = candidate d 25))"
proof -
  have stable: "fst (simulateGivenN d (fst (findMaxYears d)) (expensesAnnual d)) = fst (findMaxYears d) \<and>
         snd (findMaxYears d) = solveRrspWForHorizon d (fst (findMaxYears d))"
    if "\<exists>k<25. yearsSurvived d (candidate d k) = candidate d k"
    using findMaxYears_stable[OF that] by (auto simp add: yearsSurvived_def)
  have budget: "fst (findMaxYears d) = candidate d 25"
    if "\<forall>k<25. yearsSurvived d (candidate d k) \<noteq> candidate d k"
    using findMaxYears_budget[OF that] by simp
  have "\<exists>k. fst (findMaxYears d) = candidate d k"
  proof (cases "\<exists>k<25. yearsSurvived d (candidate d k) = candidate d k")
    case True
    from findMaxYears_stable[OF True] show ?thesis by auto
  next
    case False
    then show ?thesis using budget by blast
  qed
  then have "1 \<le> fst (findMaxYears d) \<and> fst (findMaxYears d) \<le> 120"
    using candidate_pos candidate_le by auto
  then show ?thesis
    unfolding Let_def using stable budget by blast
qed

end
